theory Spec2Isabelle
  imports Main "HOL-Library.AList"
begin

section \<open>Python values\<close>

text \<open>
  JSON-like values as the push protocol and the JSON columns carry them. Floats are left
  out: no function modelled here computes with one.
\<close>

datatype json =
    JNull
  | JBool bool
  | JInt int
  | JStr string
  | JList "json list"
  | JObj "(string \<times> json) list"

text \<open>
  A Python \<open>dict\<close> with string keys is an association list in insertion order;
  \<open>AList.update\<close> overwrites in place or appends, \<open>AList.delete\<close> is \<open>del d[k]\<close>.
\<close>

type_synonym pydict = "(string \<times> json) list"

text \<open>\<open>d.get(k)\<close> and \<open>d.get(k, default)\<close>.\<close>

definition dict_get :: "pydict \<Rightarrow> string \<Rightarrow> json" where
  "dict_get d k = (case map_of d k of None \<Rightarrow> JNull | Some v \<Rightarrow> v)"

definition dict_get_default :: "pydict \<Rightarrow> string \<Rightarrow> json \<Rightarrow> json" where
  "dict_get_default d k dflt = (case map_of d k of None \<Rightarrow> dflt | Some v \<Rightarrow> v)"

text \<open>Truth value of a Python object in \<open>if x\<close> and \<open>not x\<close>.\<close>

fun truthy :: "json \<Rightarrow> bool" where
  "truthy JNull = False"
| "truthy (JBool b) = b"
| "truthy (JInt i) = (i \<noteq> 0)"
| "truthy (JStr s) = (s \<noteq> [])"
| "truthy (JList xs) = (xs \<noteq> [])"
| "truthy (JObj kvs) = (kvs \<noteq> [])"

text \<open>Exceptions, with \<open>str(e)\<close>. \<open>str\<close> of a \<open>KeyError\<close> is the repr of its key.\<close>

datatype exn =
    ValueError string
  | KeyError string
  | AttributeError string
  | FileNotFoundError string
  | RuntimeError string

fun str_exn :: "exn \<Rightarrow> string" where
  "str_exn (ValueError m) = m"
| "str_exn (KeyError k) = [CHR 0x27] @ k @ [CHR 0x27]"
| "str_exn (AttributeError m) = m"
| "str_exn (FileNotFoundError m) = m"
| "str_exn (RuntimeError m) = m"

text \<open>\<open>d[k]\<close>, which raises \<open>KeyError\<close> on a missing key.\<close>

definition dict_item :: "pydict \<Rightarrow> string \<Rightarrow> exn + json" where
  "dict_item d k = (case map_of d k of None \<Rightarrow> Inl (KeyError k) | Some v \<Rightarrow> Inr v)"

section \<open>Connection manager (services/websocket\_manager.py)\<close>

text \<open>
  A \<open>WebSocket\<close> object is identified by a handle. A Python \<open>set\<close> of channels is a list
  without duplicates; the order of the list stands for the iteration order of the set,
  which Python leaves unspecified. The transport is outside the repository: within one
  operation \<open>accept\<close> and \<open>send_text\<close> either return (\<open>None\<close>) or raise the given
  exception, per channel.
\<close>

type_synonym WebSocket = nat

record transport =
  accept :: "WebSocket \<Rightarrow> exn option"
  send_text :: "WebSocket \<Rightarrow> exn option"

text \<open>The records written through \<open>logger\<close>, by call site.\<close>

datatype log_record =
    Connected int
  | Disconnected int
  | SendError exn
  | UserSendError int exn
  | BroadcastError int exn
  | Subscribed int json
  | UnknownMessageType json

text \<open>
  \<open>active_connections\<close> and \<open>websocket_users\<close> are the two dictionaries of the class.
  \<open>sent\<close> is the trace of the texts that \<open>send_text\<close> delivered, oldest first, and
  \<open>logged\<close> the log.
\<close>

record ConnectionManager =
  active_connections :: "(int \<times> WebSocket list) list"
  websocket_users :: "(WebSocket \<times> int) list"
  sent :: "(WebSocket \<times> pydict) list"
  logged :: "log_record list"

definition init_manager :: ConnectionManager where
  "init_manager = \<lparr>active_connections = [], websocket_users = [], sent = [], logged = []\<rparr>"

text \<open>\<open>s.add(x)\<close> and \<open>s.discard(x)\<close> on a set.\<close>

definition set_add :: "'a \<Rightarrow> 'a list \<Rightarrow> 'a list" where
  "set_add x xs = (if x \<in> set xs then xs else xs @ [x])"

definition set_discard :: "'a \<Rightarrow> 'a list \<Rightarrow> 'a list" where
  "set_discard x xs = removeAll x xs"

definition disconnect :: "WebSocket \<Rightarrow> ConnectionManager \<Rightarrow> ConnectionManager" where
  "disconnect websocket self =
     (case map_of (websocket_users self) websocket of
        None \<Rightarrow> self
      | Some user_id \<Rightarrow>
          self\<lparr>active_connections :=
                 (case map_of (active_connections self) user_id of
                    None \<Rightarrow> active_connections self
                  | Some conns \<Rightarrow>
                      if set_discard websocket conns = []
                      then AList.delete user_id (active_connections self)
                      else AList.update user_id (set_discard websocket conns)
                             (active_connections self)),
               websocket_users := AList.delete websocket (websocket_users self),
               logged := logged self @ [Disconnected user_id]\<rparr>)"

definition send_personal_message ::
  "transport \<Rightarrow> pydict \<Rightarrow> WebSocket \<Rightarrow> ConnectionManager \<Rightarrow> ConnectionManager" where
  "send_personal_message tr message websocket self =
     (case send_text tr websocket of
        None \<Rightarrow> self\<lparr>sent := sent self @ [(websocket, message)]\<rparr>
      | Some e \<Rightarrow> disconnect websocket (self\<lparr>logged := logged self @ [SendError e]\<rparr>))"

text \<open>
  \<open>connect\<close> raises what \<open>accept\<close> raises, before it has touched the registry.
\<close>

definition connect ::
  "transport \<Rightarrow> WebSocket \<Rightarrow> int \<Rightarrow> ConnectionManager \<Rightarrow> exn + ConnectionManager" where
  "connect tr websocket user_id self =
     (case accept tr websocket of
        Some e \<Rightarrow> Inl e
      | None \<Rightarrow>
          Inr (send_personal_message tr
                 [(''type'', JStr ''connection_confirmed''),
                  (''message'', JStr ''WebSocket connection established''),
                  (''user_id'', JInt user_id)]
                 websocket
                 (self\<lparr>active_connections :=
                         AList.update user_id
                           (set_add websocket
                              (case map_of (active_connections self) user_id of
                                 None \<Rightarrow> [] | Some conns \<Rightarrow> conns))
                           (active_connections self),
                       websocket_users := AList.update websocket user_id (websocket_users self),
                       logged := logged self @ [Connected user_id]\<rparr>)))"

text \<open>
  The body of the \<open>for websocket in ...copy()\<close> loops: a send that raises is logged and the
  channel is remembered in \<open>disconnected_websockets\<close>.
\<close>

fun send_each ::
  "transport \<Rightarrow> (exn \<Rightarrow> log_record) \<Rightarrow> pydict \<Rightarrow> WebSocket list \<Rightarrow>
   ConnectionManager \<times> WebSocket list \<Rightarrow> ConnectionManager \<times> WebSocket list" where
  "send_each tr lg message [] acc = acc"
| "send_each tr lg message (websocket # rest) (self, disconnected_websockets) =
     (case send_text tr websocket of
        None \<Rightarrow>
          send_each tr lg message rest
            (self\<lparr>sent := sent self @ [(websocket, message)]\<rparr>, disconnected_websockets)
      | Some e \<Rightarrow>
          send_each tr lg message rest
            (self\<lparr>logged := logged self @ [lg e]\<rparr>, disconnected_websockets @ [websocket]))"

definition send_message_to_user ::
  "transport \<Rightarrow> pydict \<Rightarrow> int \<Rightarrow> ConnectionManager \<Rightarrow> ConnectionManager" where
  "send_message_to_user tr message user_id self =
     (case map_of (active_connections self) user_id of
        None \<Rightarrow> self
      | Some conns \<Rightarrow>
          (case send_each tr (UserSendError user_id) message conns (self, []) of
             (self', disconnected_websockets) \<Rightarrow> fold disconnect disconnected_websockets self'))"

fun broadcast_loop ::
  "transport \<Rightarrow> pydict \<Rightarrow> (int \<times> WebSocket list) list \<Rightarrow>
   ConnectionManager \<times> WebSocket list \<Rightarrow> ConnectionManager \<times> WebSocket list" where
  "broadcast_loop tr message [] acc = acc"
| "broadcast_loop tr message ((user_id, websockets) # rest) acc =
     broadcast_loop tr message rest
       (send_each tr (BroadcastError user_id) message websockets acc)"

definition broadcast_to_all ::
  "transport \<Rightarrow> pydict \<Rightarrow> ConnectionManager \<Rightarrow> ConnectionManager" where
  "broadcast_to_all tr message self =
     (case broadcast_loop tr message (active_connections self) (self, []) of
        (self', disconnected_websockets) \<Rightarrow> fold disconnect disconnected_websockets self')"

definition ticket_update_message :: "int \<Rightarrow> pydict \<Rightarrow> pydict" where
  "ticket_update_message ticket_id update_data =
     [(''type'', JStr ''ticket_update''),
      (''ticket_id'', JInt ticket_id),
      (''data'', JObj update_data),
      (''timestamp'', dict_get update_data ''timestamp'')]"

text \<open>\<open>user_id: int = None\<close>; \<open>if user_id:\<close> is false for \<open>None\<close> and for \<open>0\<close>.\<close>

definition send_ticket_update ::
  "transport \<Rightarrow> int \<Rightarrow> pydict \<Rightarrow> int option \<Rightarrow> ConnectionManager \<Rightarrow> ConnectionManager" where
  "send_ticket_update tr ticket_id update_data user_id self =
     (case user_id of
        Some u \<Rightarrow>
          if u \<noteq> 0 then send_message_to_user tr (ticket_update_message ticket_id update_data) u self
          else broadcast_to_all tr (ticket_update_message ticket_id update_data) self
      | None \<Rightarrow> broadcast_to_all tr (ticket_update_message ticket_id update_data) self)"

definition get_connection_count :: "ConnectionManager \<Rightarrow> nat" where
  "get_connection_count self =
     sum_list (map (\<lambda>(user_id, websockets). length websockets) (active_connections self))"

definition get_connected_users :: "ConnectionManager \<Rightarrow> int list" where
  "get_connected_users self = map fst (active_connections self)"

definition handle_client_message ::
  "transport \<Rightarrow> WebSocket \<Rightarrow> pydict \<Rightarrow> ConnectionManager \<Rightarrow> ConnectionManager" where
  "handle_client_message tr websocket message self =
     (if dict_get message ''type'' = JStr ''ping'' then
        send_personal_message tr
          [(''type'', JStr ''pong''), (''timestamp'', dict_get message ''timestamp'')]
          websocket self
      else if dict_get message ''type'' = JStr ''subscribe_ticket'' then
        (case map_of (websocket_users self) websocket of
           None \<Rightarrow> self
         | Some user_id \<Rightarrow>
             if truthy (dict_get message ''ticket_id'') \<and> user_id \<noteq> 0 then
               send_personal_message tr
                 [(''type'', JStr ''subscription_confirmed''),
                  (''ticket_id'', dict_get message ''ticket_id'')]
                 websocket
                 (self\<lparr>logged := logged self
                    @ [Subscribed user_id (dict_get message ''ticket_id'')]\<rparr>)
             else self)
      else self\<lparr>logged := logged self @ [UnknownMessageType (dict_get message ''type'')]\<rparr>)"

text \<open>The channels registered for an identity (none when the identity has no entry).\<close>

definition channels_of :: "ConnectionManager \<Rightarrow> int \<Rightarrow> WebSocket list" where
  "channels_of self user_id =
     (case map_of (active_connections self) user_id of None \<Rightarrow> [] | Some conns \<Rightarrow> conns)"

text \<open>
  A run of the manager: one operation after the other, each with the transport as it is
  at that moment. An exception of \<open>connect\<close> goes to the endpoint and leaves the
  registry as it was.
\<close>

datatype mux_op =
    Connect WebSocket int
  | Disconnect WebSocket
  | SendPersonal pydict WebSocket
  | SendToUser pydict int
  | Broadcast pydict
  | TicketUpdate int pydict "int option"
  | ClientMessage WebSocket pydict

fun step :: "transport \<Rightarrow> mux_op \<Rightarrow> ConnectionManager \<Rightarrow> ConnectionManager" where
  "step tr (Connect ws u) self = (case connect tr ws u self of Inl e \<Rightarrow> self | Inr self' \<Rightarrow> self')"
| "step tr (Disconnect ws) self = disconnect ws self"
| "step tr (SendPersonal m ws) self = send_personal_message tr m ws self"
| "step tr (SendToUser m u) self = send_message_to_user tr m u self"
| "step tr (Broadcast m) self = broadcast_to_all tr m self"
| "step tr (TicketUpdate t d u) self = send_ticket_update tr t d u self"
| "step tr (ClientMessage ws m) self = handle_client_message tr ws m self"

fun run :: "(transport \<times> mux_op) list \<Rightarrow> ConnectionManager \<Rightarrow> ConnectionManager" where
  "run [] self = self"
| "run ((tr, op) # rest) self = run rest (step tr op self)"

text \<open>
  The framework's socket is accepted once: \<open>accept\<close> raises on a socket that has been
  accepted before. A channel in the registry has been accepted, since \<open>connect\<close> registers
  it after \<open>accept\<close> has returned. So in a run of the program, whenever \<open>connect\<close> is
  called for a channel that is registered at that moment, \<open>accept\<close> raises. The
  operations themselves, their order and their arguments are not restricted.
\<close>

fun accepted_once :: "transport \<Rightarrow> mux_op \<Rightarrow> ConnectionManager \<Rightarrow> bool" where
  "accepted_once tr (Connect ws u) self =
     (case map_of (websocket_users self) ws of
        None \<Rightarrow> True
      | Some u' \<Rightarrow> (case accept tr ws of None \<Rightarrow> False | Some e \<Rightarrow> True))"
| "accepted_once tr _ self = True"

fun transport_accepts_once ::
  "(transport \<times> mux_op) list \<Rightarrow> ConnectionManager \<Rightarrow> bool" where
  "transport_accepts_once [] self = True"
| "transport_accepts_once ((tr, op) # rest) self =
     (accepted_once tr op self \<and> transport_accepts_once rest (step tr op self))"

section \<open>Tickets (models/ticket.py, models/audit.py)\<close>

datatype TicketStatus = PENDING | PROCESSING | COMPLETED | FAILED | CANCELLED

datatype TaskType = PR_REVIEW | DOC_ANALYSIS | PAPER_WRITING | SNOWFLAKE_QUERY | CUSTOM

datatype Priority = LOW | MEDIUM | HIGH | URGENT

text \<open>\<open>TicketStatus(value)\<close>: the member with that value, \<open>ValueError\<close> when there is none.\<close>

definition TicketStatus_of :: "string \<Rightarrow> exn + TicketStatus" where
  "TicketStatus_of s =
     (if s = ''pending'' then Inr PENDING
      else if s = ''processing'' then Inr PROCESSING
      else if s = ''completed'' then Inr COMPLETED
      else if s = ''failed'' then Inr FAILED
      else if s = ''cancelled'' then Inr CANCELLED
      else Inl (ValueError ([CHR 0x27] @ s @ [CHR 0x27] @ '' is not a valid TicketStatus'')))"

record TicketAttachment =
  filename :: string
  file_path :: string
  file_size :: "int option"
  content_type :: "string option"

text \<open>
  A row of \<open>tickets\<close>; the primary key is the key of the table below. Times are clock
  readings. \<open>task_type\<close> is \<open>None\<close> for a value outside the enumeration, which is what
  the last branch of the dispatch is for. Column defaults and \<open>onupdate\<close> hooks belong to
  the persistence layer: only what the functions assign is modelled, and a commit stores
  the row.
\<close>

record Ticket =
  title :: string
  description :: "string option"
  task_type :: "TaskType option"
  priority :: Priority
  status :: TicketStatus
  created_by :: int
  assigned_to :: "int option"
  created_at :: nat
  updated_at :: nat
  completed_at :: "nat option"
  task_data :: pydict
  result_data :: pydict
  processing_logs :: "string option"
  error_message :: "string option"
  ai_model_used :: "string option"
  processing_time_seconds :: int
  tokens_used :: json
  attachments :: "TicketAttachment list"

text \<open>The description of an audit entry: the f-string's template with its argument.\<close>

datatype audit_text =
    ProcessingStarted "TaskType option"
  | ProcessingCompleted
  | ProcessingFailed string

record AuditLog =
  action :: string
  entity_type :: string
  entity_id :: int
  description' :: audit_text
  metadata :: pydict
  timestamp :: nat

record User =
  id' :: int
  role :: string

text \<open>
  What the functions share: the two tables, the messages handed to the job queue by
  \<open>process_ticket_task.delay\<close>, the errors logged by the worker, and the module-level
  \<open>manager\<close>.
\<close>

record system =
  tickets :: "int \<rightharpoonup> Ticket"
  audit_logs :: "AuditLog list"
  task_queue :: "int list"
  task_log :: "(int \<times> string) list"
  manager :: ConnectionManager

section \<open>Orchestrator (tasks/ai\_orchestrator.py)\<close>

text \<open>
  The prompt of a handler: which template, and the values formatted into it.
\<close>

datatype prompt =
    PRReviewPrompt json json json json
  | DocAnalysisPrompt "(string \<times> string) list" json json
  | PaperWritingPrompt json json json json json json
  | CustomTaskPrompt json json json

text \<open>
  The object a completion returns, as the handlers read it: its \<open>content\<close>, and its
  \<open>usage\<close>, which is an object with \<open>total_tokens\<close>, or \<open>None\<close>, or an attribute that
  an object of this class does not have.
\<close>

datatype usage_attribute =
    Usage int
  | UsageNone
  | NoUsageAttribute string

record ai_message =
  content :: json
  usage :: usage_attribute

text \<open>
  The collaborators of one job run: the clock, the Celery request id, and the clients,
  each of which returns or raises when it is called. Constructing a client and committing
  the session are taken to succeed.
\<close>

record job =
  utcnow :: nat
  request_id :: json
  model_name :: string
  get_completion :: "prompt \<Rightarrow> exn + ai_message"
  get_pr_data :: "json \<Rightarrow> exn + pydict"
  extract_text :: "string \<Rightarrow> exn + string"
  execute_query :: "json \<Rightarrow> exn + json"

definition bind_exn :: "exn + 'a \<Rightarrow> ('a \<Rightarrow> exn + 'b) \<Rightarrow> exn + 'b" where
  "bind_exn r f = (case r of Inl e \<Rightarrow> Inl e | Inr v \<Rightarrow> f v)"

text \<open>
  \<open>response.usage.total_tokens if response.usage else 0\<close>; reading an attribute that the
  object does not have raises \<open>AttributeError\<close>.
\<close>

definition total_tokens :: "ai_message \<Rightarrow> exn + json" where
  "total_tokens response =
     (case usage response of
        Usage n \<Rightarrow> Inr (JInt n)
      | UsageNone \<Rightarrow> Inr (JInt 0)
      | NoUsageAttribute cls \<Rightarrow>
          Inl (AttributeError ([CHR 0x27] @ cls @ [CHR 0x27] @ '' object has no attribute ''
                 @ [CHR 0x27] @ ''usage'' @ [CHR 0x27])))"

definition process_pr_review :: "job \<Rightarrow> Ticket \<Rightarrow> exn + pydict" where
  "process_pr_review env ticket =
     (if \<not> truthy (dict_get (task_data ticket) ''pr_url'') then
        Inl (ValueError ''PR URL is required for PR review task'')
      else
        bind_exn (get_pr_data env (dict_get (task_data ticket) ''pr_url'')) (\<lambda>pr_data.
        bind_exn (dict_item pr_data ''title'') (\<lambda>pr_title.
        bind_exn (dict_item pr_data ''description'') (\<lambda>pr_description.
        bind_exn (dict_item pr_data ''diff'') (\<lambda>pr_diff.
        bind_exn (get_completion env
                    (PRReviewPrompt pr_title pr_description pr_diff
                       (dict_get_default (task_data ticket) ''additional_instructions''
                          (JStr [])))) (\<lambda>response.
        bind_exn (total_tokens response) (\<lambda>tokens.
        Inr [(''pr_url'', dict_get (task_data ticket) ''pr_url''),
             (''review_analysis'', content response),
             (''tokens_used'', tokens),
             (''model_used'', JStr (model_name env))])))))))"

fun extract_all :: "job \<Rightarrow> TicketAttachment list \<Rightarrow> exn + (string \<times> string) list" where
  "extract_all env [] = Inr []"
| "extract_all env (attachment # rest) =
     bind_exn (extract_text env (file_path attachment)) (\<lambda>text_content.
     bind_exn (extract_all env rest) (\<lambda>extracted.
     Inr ((filename attachment, text_content) # extracted)))"

definition process_doc_analysis :: "job \<Rightarrow> Ticket \<Rightarrow> exn + pydict" where
  "process_doc_analysis env ticket =
     bind_exn (extract_all env (attachments ticket)) (\<lambda>extracted_content.
     bind_exn (get_completion env
                 (DocAnalysisPrompt extracted_content
                    (dict_get_default (task_data ticket) ''analysis_type'' (JStr ''general''))
                    (dict_get_default (task_data ticket) ''instructions''
                       (JStr ''Provide a comprehensive analysis'')))) (\<lambda>response.
     bind_exn (total_tokens response) (\<lambda>tokens.
     Inr [(''documents_analyzed'', JInt (int (length extracted_content))),
          (''analysis'', content response),
          (''tokens_used'', tokens),
          (''model_used'', JStr (model_name env))])))"

definition process_paper_writing :: "job \<Rightarrow> Ticket \<Rightarrow> exn + pydict" where
  "process_paper_writing env ticket =
     bind_exn (get_completion env
                 (PaperWritingPrompt
                    (dict_get_default (task_data ticket) ''paper_type'' (JStr ''report''))
                    (dict_get (task_data ticket) ''topic'')
                    (dict_get_default (task_data ticket) ''requirements'' (JStr []))
                    (dict_get_default (task_data ticket) ''target_audience'' (JStr ''General''))
                    (dict_get_default (task_data ticket) ''length'' (JStr ''Medium''))
                    (dict_get_default (task_data ticket) ''instructions'' (JStr [])))) (\<lambda>response.
     bind_exn (total_tokens response) (\<lambda>tokens.
     Inr [(''paper_content'', content response),
          (''tokens_used'', tokens),
          (''model_used'', JStr (model_name env))]))"

definition process_snowflake_query :: "job \<Rightarrow> Ticket \<Rightarrow> exn + pydict" where
  "process_snowflake_query env ticket =
     (if \<not> truthy (dict_get (task_data ticket) ''query_request'') then
        Inl (ValueError ''Query request is required for Snowflake task'')
      else
        bind_exn (execute_query env (dict_get (task_data ticket) ''query_request'')) (\<lambda>result.
        Inr [(''query_request'', dict_get (task_data ticket) ''query_request''),
             (''query_result'', result),
             (''tokens_used'', JInt 0),
             (''model_used'', JStr ''MCP Snowflake'')]))"

definition process_custom_task :: "job \<Rightarrow> Ticket \<Rightarrow> exn + pydict" where
  "process_custom_task env ticket =
     bind_exn (get_completion env
                 (CustomTaskPrompt
                    (dict_get (task_data ticket) ''task_description'')
                    (dict_get_default (task_data ticket) ''instructions'' (JStr []))
                    (dict_get_default (task_data ticket) ''context'' (JStr [])))) (\<lambda>response.
     bind_exn (total_tokens response) (\<lambda>tokens.
     Inr [(''task_result'', content response),
          (''tokens_used'', tokens),
          (''model_used'', JStr (model_name env))]))"

text \<open>The \<open>if\<close>/\<open>elif\<close> chain on the task type inside the \<open>try\<close>.\<close>

definition dispatch :: "job \<Rightarrow> Ticket \<Rightarrow> exn + pydict" where
  "dispatch env ticket =
     (case task_type ticket of
        Some PR_REVIEW \<Rightarrow> process_pr_review env ticket
      | Some DOC_ANALYSIS \<Rightarrow> process_doc_analysis env ticket
      | Some PAPER_WRITING \<Rightarrow> process_paper_writing env ticket
      | Some SNOWFLAKE_QUERY \<Rightarrow> process_snowflake_query env ticket
      | Some CUSTOM \<Rightarrow> process_custom_task env ticket
      | None \<Rightarrow> Inl (ValueError ''Unknown task type: None''))"

definition log_audit_event ::
  "nat \<Rightarrow> string \<Rightarrow> string \<Rightarrow> int \<Rightarrow> audit_text \<Rightarrow> pydict \<Rightarrow> system \<Rightarrow> system" where
  "log_audit_event now act ety eid descr meta sys =
     sys\<lparr>audit_logs := audit_logs sys @
           [\<lparr>action = act, entity_type = ety, entity_id = eid, description' = descr,
             metadata = meta, timestamp = now\<rparr>]\<rparr>"

text \<open>Decimal rendering of an integer in an f-string.\<close>

fun str_nat :: "nat \<Rightarrow> string" where
  "str_nat n =
     (if n < 10 then [char_of (48 + n)] else str_nat (n div 10) @ [char_of (48 + n mod 10)])"

declare str_nat.simps [simp del]

definition str_int :: "int \<Rightarrow> string" where
  "str_int i = (if i < 0 then ''-'' @ str_nat (nat (- i)) else str_nat (nat i))"

definition process_ticket_async :: "job \<Rightarrow> int \<Rightarrow> system \<Rightarrow> (exn + pydict) \<times> system" where
  "process_ticket_async env ticket_id sys =
     (case tickets sys ticket_id of
        None \<Rightarrow> (Inl (ValueError (''Ticket '' @ str_int ticket_id @ '' not found'')), sys)
      | Some ticket \<Rightarrow>
          (let ticket1 = ticket\<lparr>status := PROCESSING\<rparr>;
               sys1 = log_audit_event (utcnow env) ''ai_processing_started'' ''ticket'' ticket_id
                        (ProcessingStarted (task_type ticket1))
                        [(''celery_task_id'', request_id env)]
                        (sys\<lparr>tickets := (tickets sys)(ticket_id \<mapsto> ticket1)\<rparr>)
           in case dispatch env ticket1 of
                Inr result \<Rightarrow>
                  (let ticket2 = ticket1\<lparr>result_data := result,
                                         status := COMPLETED,
                                         completed_at := Some (utcnow env),
                                         ai_model_used := Some (model_name env),
                                         tokens_used :=
                                           dict_get_default result ''tokens_used'' (JInt 0)\<rparr>
                   in (Inr [(''status'', JStr ''completed''),
                            (''ticket_id'', JInt ticket_id),
                            (''result'', JObj result)],
                       log_audit_event (utcnow env) ''ai_processing_completed'' ''ticket''
                         ticket_id ProcessingCompleted
                         [(''tokens_used'', tokens_used ticket2)]
                         (sys1\<lparr>tickets := (tickets sys1)(ticket_id \<mapsto> ticket2)\<rparr>)))
              | Inl e \<Rightarrow>
                  (let ticket2 = ticket1\<lparr>status := FAILED,
                                         error_message := Some (str_exn e)\<rparr>
                   in (Inl e,
                       log_audit_event (utcnow env) ''ai_processing_failed'' ''ticket''
                         ticket_id (ProcessingFailed (str_exn e))
                         [(''error'', JStr (str_exn e))]
                         (sys1\<lparr>tickets := (tickets sys1)(ticket_id \<mapsto> ticket2)\<rparr>)))))"

definition mark_ticket_failed :: "int \<Rightarrow> string \<Rightarrow> system \<Rightarrow> system" where
  "mark_ticket_failed ticket_id msg sys =
     (case tickets sys ticket_id of
        None \<Rightarrow> sys
      | Some ticket \<Rightarrow>
          sys\<lparr>tickets := (tickets sys)(ticket_id \<mapsto>
                 ticket\<lparr>status := FAILED, error_message := Some msg\<rparr>)\<rparr>)"

text \<open>
  The Celery task: the result of the run, or, when the run raised, the error logged, the
  ticket marked failed and the exception raised again.
\<close>

definition process_ticket_task :: "job \<Rightarrow> int \<Rightarrow> system \<Rightarrow> (exn + pydict) \<times> system" where
  "process_ticket_task env ticket_id sys =
     (case process_ticket_async env ticket_id sys of
        (Inr result, sys') \<Rightarrow> (Inr result, sys')
      | (Inl e, sys') \<Rightarrow>
          (Inl e,
           mark_ticket_failed ticket_id (str_exn e)
             (sys'\<lparr>task_log := task_log sys' @ [(ticket_id, str_exn e)]\<rparr>)))"

section \<open>Status update task (tasks/ticket\_processor.py)\<close>

text \<open>
  \<open>result_data\<close> is \<open>None\<close> when the argument is left out. The returned dictionary carries
  the clock reading where the source renders it with \<open>isoformat\<close>.
\<close>

definition update_ticket_status_async ::
  "nat \<Rightarrow> int \<Rightarrow> string \<Rightarrow> pydict option \<Rightarrow> system \<Rightarrow> (exn + pydict) \<times> system" where
  "update_ticket_status_async now ticket_id status_str new_result_data sys =
     (case tickets sys ticket_id of
        None \<Rightarrow> (Inl (ValueError (''Ticket '' @ str_int ticket_id @ '' not found'')), sys)
      | Some ticket \<Rightarrow>
          (case TicketStatus_of status_str of
             Inl e \<Rightarrow> (Inl e, sys)
           | Inr st \<Rightarrow>
               (let ticket1 = ticket\<lparr>status := st, updated_at := now\<rparr>;
                    ticket2 = (case new_result_data of
                                 None \<Rightarrow> ticket1
                               | Some rd \<Rightarrow>
                                   if rd \<noteq> [] then ticket1\<lparr>result_data := rd\<rparr> else ticket1);
                    ticket3 = (if status_str = ''completed''
                               then ticket2\<lparr>completed_at := Some now\<rparr> else ticket2)
                in (Inr [(''ticket_id'', JInt ticket_id),
                         (''status'', JStr status_str),
                         (''updated_at'', JInt (int now))],
                    sys\<lparr>tickets := (tickets sys)(ticket_id \<mapsto> ticket3)\<rparr>))))"

section \<open>Reprocess endpoint (api/v1/endpoints/tickets.py)\<close>

datatype HTTPException = HTTPException nat string

definition reprocess_ticket ::
  "User \<Rightarrow> nat \<Rightarrow> int \<Rightarrow> system \<Rightarrow> (HTTPException + pydict) \<times> system" where
  "reprocess_ticket current_user now ticket_id sys =
     (case tickets sys ticket_id of
        None \<Rightarrow> (Inl (HTTPException 404 ''Ticket not found''), sys)
      | Some ticket \<Rightarrow>
          if role current_user \<noteq> ''admin'' \<and> created_by ticket \<noteq> id' current_user then
            (Inl (HTTPException 403 ''Not authorized to reprocess this ticket''), sys)
          else
            (Inr [(''message'', JStr ''Ticket queued for reprocessing'')],
             sys\<lparr>tickets := (tickets sys)(ticket_id \<mapsto>
                    ticket\<lparr>status := PENDING,
                           error_message := None,
                           result_data := [],
                           updated_at := now\<rparr>),
                  task_queue := task_queue sys @ [ticket_id]\<rparr>))"

section \<open>Example states\<close>

text \<open>Concrete inputs on which the theorems below are evaluated.\<close>

definition admin_user :: User where
  "admin_user = \<lparr>id' = 1, role = ''admin''\<rparr>"

definition example_ticket :: "TicketStatus \<Rightarrow> TaskType \<Rightarrow> nat option \<Rightarrow> Ticket" where
  "example_ticket st ty done =
     \<lparr>title = ''demo'', description = None, task_type = Some ty, priority = MEDIUM,
      status = st, created_by = 7, assigned_to = None, created_at = 0, updated_at = 0,
      completed_at = done, task_data = [], result_data = [], processing_logs = None,
      error_message = None, ai_model_used = None, processing_time_seconds = 0,
      tokens_used = JInt 0, attachments = []\<rparr>"

text \<open>Identity 7 with one live channel, 10.\<close>

definition example_manager :: ConnectionManager where
  "example_manager =
     \<lparr>active_connections = [(7, [10])], websocket_users = [(10, 7)], sent = [], logged = []\<rparr>"

text \<open>Ticket 1, owned by identity 7, with one job on the queue.\<close>

definition example_system :: "Ticket \<Rightarrow> system" where
  "example_system t =
     \<lparr>tickets = [1 \<mapsto> t], audit_logs = [], task_queue = [1], task_log = [],
      manager = example_manager\<rparr>"

text \<open>
  The placeholder of the query client (services/mcp\_client.py, \<open>_call_cortex_analyst\<close>),
  for a request of its declared type \<open>str\<close>.
\<close>

definition call_cortex_analyst :: "string \<Rightarrow> json" where
  "call_cortex_analyst query_request =
     JObj [(''query'', JStr query_request),
           (''response'', JStr (''Mock Cortex Analyst response for: '' @ query_request)),
           (''data'',
            JList [JObj [(''column1'', JStr ''value1''), (''column2'', JStr ''value2'')],
                   JObj [(''column1'', JStr ''value3''), (''column2'', JStr ''value4'')]]),
           (''metadata'',
            JObj [(''execution_time_ms'', JInt 150), (''rows_returned'', JInt 2),
                  (''service'', JStr ''cortex_analyst'')])]"

text \<open>
  A job with the repository's clients. The completion client returns the message of the
  first choice (services/ai\_client.py, \<open>get_completion\<close>), an object without a
  \<open>usage\<close> attribute. The pull request is not accessible and no file exists. The query
  client answers with its placeholder; a request that is not a string, which its
  signature excludes, is refused here.
\<close>

definition example_job :: job where
  "example_job =
     \<lparr>utcnow = 5, request_id = JStr ''job-1'', model_name = ''grok-3'',
      get_completion =
        (\<lambda>p. Inr \<lparr>content = JStr ''done'',
                       usage = NoUsageAttribute ''ChatCompletionMessage''\<rparr>),
      get_pr_data = (\<lambda>u. Inl (ValueError ''PR not found or not accessible'')),
      extract_text = (\<lambda>p. Inl (FileNotFoundError (''File not found: '' @ p))),
      execute_query =
        (\<lambda>q. case q of
               JStr query_request \<Rightarrow> Inr (call_cortex_analyst query_request)
             | _ \<Rightarrow> Inl (ValueError ''query request is not a string''))\<rparr>"

text \<open>A ticket of the query kind whose payload has the required field.\<close>

definition query_ticket :: "TicketStatus \<Rightarrow> nat option \<Rightarrow> Ticket" where
  "query_ticket st done =
     (example_ticket st SNOWFLAKE_QUERY done)
       \<lparr>task_data := [(''query_request'', JStr ''count users'')]\<rparr>"

text \<open>A transport on which every channel accepts and only channel 10 fails to send.\<close>

definition example_transport :: transport where
  "example_transport =
     \<lparr>accept = (\<lambda>ws. None),
      send_text = (\<lambda>ws. if ws = 10 then Some (RuntimeError ''closed'') else None)\<rparr>"

definition good_transport :: transport where
  "good_transport = \<lparr>accept = (\<lambda>ws. None), send_text = (\<lambda>ws. None)\<rparr>"

text \<open>A transport on which channel 10 has been accepted before: \<open>accept\<close> raises on it.\<close>

definition accepted_transport :: transport where
  "accepted_transport =
     \<lparr>accept = (\<lambda>ws. if ws = 10 then Some (RuntimeError ''already accepted'') else None),
      send_text = (\<lambda>ws. None)\<rparr>"

text \<open>Identity 1 with channels 10 and 11, identity 2 with channel 12.\<close>

definition three_channels :: ConnectionManager where
  "three_channels =
     \<lparr>active_connections = [(1, [10, 11]), (2, [12])],
      websocket_users = [(10, 1), (11, 1), (12, 2)], sent = [], logged = []\<rparr>"

text \<open>
  The two dictionaries agree: keys are unique, a set of channels has no duplicates and is
  never empty, and a channel maps to an identity exactly when it is in that identity's
  set.
\<close>

definition registry_ok :: "ConnectionManager \<Rightarrow> bool" where
  "registry_ok self \<longleftrightarrow>
     distinct (map fst (active_connections self)) \<and>
     distinct (map fst (websocket_users self)) \<and>
     (\<forall>u conns. map_of (active_connections self) u = Some conns \<longrightarrow>
        distinct conns \<and> conns \<noteq> []) \<and>
     (\<forall>ws u. (map_of (websocket_users self) ws = Some u) = (ws \<in> set (channels_of self u)))"

text \<open>
  Three connects, then a broadcast during which channel 10 fails to send.
\<close>

definition example_run :: "(transport \<times> mux_op) list" where
  "example_run =
     [(good_transport, Connect 10 1), (good_transport, Connect 11 1),
      (good_transport, Connect 12 2), (example_transport, Broadcast [(''type'', JStr ''x'')])]"

text \<open>
  Channel 10 connected under identity 1, then \<open>connect\<close> called for it again under
  identity 2, when its \<open>accept\<close> raises.
\<close>

definition reconnect_run :: "(transport \<times> mux_op) list" where
  "reconnect_run = [(good_transport, Connect 10 1), (accepted_transport, Connect 10 2)]"

section \<open>Properties of the connection manager\<close>

lemma websocket_users_disconnect:
  "map_of (websocket_users (disconnect ws self)) = (map_of (websocket_users self))(ws := None)"
  by (auto simp: disconnect_def delete_conv' split: option.splits)

lemma disconnect_unregistered:
  "map_of (websocket_users self) ws = None \<Longrightarrow> disconnect ws self = self"
  by (simp add: disconnect_def)

lemma disconnect_twice: "disconnect ws (disconnect ws self) = disconnect ws self"
  by (rule disconnect_unregistered) (simp add: websocket_users_disconnect)

lemma sent_disconnect [simp]: "sent (disconnect ws self) = sent self"
  by (simp add: disconnect_def split: option.splits)

lemma channels_of_disconnect:
  "channels_of (disconnect ws self) u =
     (if map_of (websocket_users self) ws = Some u then removeAll ws (channels_of self u)
      else channels_of self u)"
  by (auto simp: disconnect_def channels_of_def set_discard_def update_conv' delete_conv'
      split: option.splits)

lemma sent_fold_disconnect [simp]: "sent (fold disconnect xs self) = sent self"
  by (induction xs arbitrary: self) simp_all

lemma websocket_users_fold_disconnect:
  "map_of (websocket_users (fold disconnect xs self)) w =
     (if w \<in> set xs then None else map_of (websocket_users self) w)"
  by (induction xs arbitrary: self) (auto simp: websocket_users_disconnect)

lemma channels_of_fold_disconnect_other:
  "w \<notin> set xs \<Longrightarrow>
   (w \<in> set (channels_of (fold disconnect xs self) u)) = (w \<in> set (channels_of self u))"
  by (induction xs arbitrary: self) (auto simp: channels_of_disconnect)

lemma channels_of_fold_disconnect_subset:
  "set (channels_of (fold disconnect xs self) u) \<subseteq> set (channels_of self u)"
proof (induction xs arbitrary: self)
  case Nil
  show ?case by simp
next
  case (Cons x xs)
  have "set (channels_of (disconnect x self) u) \<subseteq> set (channels_of self u)"
    by (auto simp: channels_of_disconnect)
  with Cons [of "disconnect x self"] show ?case by auto
qed

lemma channels_of_fold_disconnect_removed:
  "w \<in> set xs \<Longrightarrow> map_of (websocket_users self) w = Some u \<Longrightarrow>
   w \<notin> set (channels_of (fold disconnect xs self) u)"
proof (induction xs arbitrary: self)
  case Nil
  then show ?case by simp
next
  case (Cons x xs)
  show ?case
  proof (cases "w = x")
    case True
    have "w \<notin> set (channels_of (disconnect x self) u)"
      using Cons.prems True by (simp add: channels_of_disconnect)
    with channels_of_fold_disconnect_subset [of xs "disconnect x self" u]
    show ?thesis by auto
  next
    case False
    with Cons.prems have "w \<in> set xs"
      and "map_of (websocket_users (disconnect x self)) w = Some u"
      by (simp_all add: websocket_users_disconnect)
    from Cons.IH [OF this] show ?thesis by simp
  qed
qed

lemma send_each_sent:
  "sent (fst (send_each tr lg m ws (self, d))) =
     sent self @ map (\<lambda>w. (w, m)) (filter (\<lambda>w. send_text tr w = None) ws)"
  by (induction ws arbitrary: self d) (auto split: option.splits)

lemma send_each_failed:
  "snd (send_each tr lg m ws (self, d)) = d @ filter (\<lambda>w. send_text tr w \<noteq> None) ws"
  by (induction ws arbitrary: self d) (auto split: option.splits)

lemma send_each_registry:
  "active_connections (fst (send_each tr lg m ws (self, d))) = active_connections self
   \<and> websocket_users (fst (send_each tr lg m ws (self, d))) = websocket_users self"
  by (induction ws arbitrary: self d) (auto split: option.splits)

lemma channels_of_send_each [simp]:
  "channels_of (fst (send_each tr lg m ws (self, d))) u = channels_of self u"
  by (simp add: channels_of_def send_each_registry)

lemma broadcast_loop_sent:
  "sent (fst (broadcast_loop tr m ac (self, d))) =
     sent self @ concat (map (\<lambda>(u, conns).
        map (\<lambda>w. (w, m)) (filter (\<lambda>w. send_text tr w = None) conns)) ac)"
proof (induction ac arbitrary: self d)
  case Nil
  show ?case by simp
next
  case (Cons p ac)
  obtain u conns where p: "p = (u, conns)" by (cases p)
  obtain s' d' where r: "send_each tr (BroadcastError u) m conns (self, d) = (s', d')"
    by (cases "send_each tr (BroadcastError u) m conns (self, d)")
  from send_each_sent [of tr "BroadcastError u" m conns self d] r
  have "sent s' = sent self @ map (\<lambda>w. (w, m)) (filter (\<lambda>w. send_text tr w = None) conns)"
    by simp
  with Cons [of s' d'] p r show ?case by simp
qed

lemma broadcast_loop_registry:
  "active_connections (fst (broadcast_loop tr m ac (self, d))) = active_connections self
   \<and> websocket_users (fst (broadcast_loop tr m ac (self, d))) = websocket_users self"
proof (induction ac arbitrary: self d)
  case Nil
  show ?case by simp
next
  case (Cons p ac)
  obtain u conns where p: "p = (u, conns)" by (cases p)
  obtain s' d' where r: "send_each tr (BroadcastError u) m conns (self, d) = (s', d')"
    by (cases "send_each tr (BroadcastError u) m conns (self, d)")
  from send_each_registry [of tr "BroadcastError u" m conns self d] r
  have "active_connections s' = active_connections self
      \<and> websocket_users s' = websocket_users self" by simp
  with Cons [of s' d'] p r show ?case by simp
qed

lemma send_message_to_user_eq:
  "map_of (active_connections self) user_id = Some conns \<Longrightarrow>
   send_message_to_user tr m user_id self =
     fold disconnect (filter (\<lambda>w. send_text tr w \<noteq> None) conns)
       (fst (send_each tr (UserSendError user_id) m conns (self, [])))"
  using send_each_failed [of tr "UserSendError user_id" m conns self "[]"]
  by (auto simp: send_message_to_user_def split: prod.splits)

lemma broadcast_to_all_sent:
  "sent (broadcast_to_all tr m self) =
     sent self @ concat (map (\<lambda>(u, conns).
        map (\<lambda>w. (w, m)) (filter (\<lambda>w. send_text tr w = None) conns)) (active_connections self))"
  using broadcast_loop_sent [of tr m "active_connections self" self "[]"]
  by (auto simp: broadcast_to_all_def split: prod.splits)

text \<open>
  C6. \<open>disconnect\<close> is idempotent: on a channel that is not in the registry it returns
  the manager as it is (and, being a total function to managers, it raises nothing);
  calling it twice gives the same manager as calling it once, so the connection count is
  not decremented a second time; and when the channel was the only one of its identity,
  the identity has no entry in \<open>active_connections\<close> afterwards.
\<close>

theorem disconnect_idempotent:
  "(map_of (websocket_users self) ws = None \<longrightarrow> disconnect ws self = self)
   \<and> disconnect ws (disconnect ws self) = disconnect ws self
   \<and> get_connection_count (disconnect ws (disconnect ws self))
       = get_connection_count (disconnect ws self)
   \<and> (\<forall>u. map_of (websocket_users self) ws = Some u
          \<and> map_of (active_connections self) u = Some [ws] \<longrightarrow>
          map_of (active_connections (disconnect ws self)) u = None
          \<and> u \<notin> set (get_connected_users (disconnect ws self)))"
proof (intro conjI impI allI)
  show "disconnect ws (disconnect ws self) = disconnect ws self"
    by (rule disconnect_twice)
  then show "get_connection_count (disconnect ws (disconnect ws self))
       = get_connection_count (disconnect ws self)"
    by simp
next
  assume "map_of (websocket_users self) ws = None"
  then show "disconnect ws self = self"
    by (rule disconnect_unregistered)
next
  fix u
  assume a: "map_of (websocket_users self) ws = Some u
          \<and> map_of (active_connections self) u = Some [ws]"
  then show "map_of (active_connections (disconnect ws self)) u = None"
    by (simp add: disconnect_def set_discard_def delete_conv')
  from a show "u \<notin> set (get_connected_users (disconnect ws self))"
    by (simp add: disconnect_def set_discard_def get_connected_users_def delete_keys)
qed

theorem disconnect_idempotent_witness:
  "map_of (websocket_users three_channels) 99 = None
   \<and> disconnect 99 three_channels = three_channels
   \<and> map_of (websocket_users three_channels) 12 = Some 2
   \<and> map_of (active_connections three_channels) 2 = Some [12]
   \<and> map_of (active_connections (disconnect 12 three_channels)) 2 = None
   \<and> get_connected_users (disconnect 12 three_channels) = [1]
   \<and> get_connection_count three_channels = 3
   \<and> get_connection_count (disconnect 12 three_channels) = 2
   \<and> get_connection_count (disconnect 12 (disconnect 12 three_channels)) = 2"
  using disconnect_idempotent [of three_channels 99] disconnect_idempotent [of three_channels 12]
  by (simp add: three_channels_def)
    (simp add: disconnect_def set_discard_def get_connection_count_def get_connected_users_def)

text \<open>
  C7. \<open>send_message_to_user\<close> is a total function to managers, so no send failure reaches
  the caller. When the identity has the channels \<open>conns\<close>, the message is delivered, once,
  to each of them whose send succeeds, whatever the other sends did; each channel whose
  send fails is no longer registered afterwards (and is gone from the identity's set when
  it was registered under that identity); every other channel is registered exactly as
  before. When the identity has no entry, the manager is returned unchanged.
\<close>

theorem send_message_to_user_isolates_failures:
  "(\<forall>conns. map_of (active_connections self) user_id = Some conns \<longrightarrow>
      sent (send_message_to_user tr message user_id self) =
        sent self @ map (\<lambda>ws. (ws, message)) (filter (\<lambda>ws. send_text tr ws = None) conns)
      \<and> (\<forall>ws \<in> set conns. send_text tr ws \<noteq> None \<longrightarrow>
            map_of (websocket_users (send_message_to_user tr message user_id self)) ws = None
            \<and> (map_of (websocket_users self) ws = Some user_id \<longrightarrow>
                 ws \<notin> set (channels_of (send_message_to_user tr message user_id self) user_id)))
      \<and> (\<forall>ws. ws \<notin> set conns \<or> send_text tr ws = None \<longrightarrow>
            map_of (websocket_users (send_message_to_user tr message user_id self)) ws
              = map_of (websocket_users self) ws
            \<and> (\<forall>u. (ws \<in> set (channels_of (send_message_to_user tr message user_id self) u))
                     = (ws \<in> set (channels_of self u)))))
   \<and> (map_of (active_connections self) user_id = None \<longrightarrow>
        send_message_to_user tr message user_id self = self)"
proof (intro conjI allI impI ballI)
  assume "map_of (active_connections self) user_id = None"
  then show "send_message_to_user tr message user_id self = self"
    by (simp add: send_message_to_user_def)
next
  fix conns
  assume c: "map_of (active_connections self) user_id = Some conns"
  let ?bad = "filter (\<lambda>w. send_text tr w \<noteq> None) conns"
  let ?mid = "fst (send_each tr (UserSendError user_id) message conns (self, []))"
  note eq = send_message_to_user_eq [OF c, of tr message]
  have reg: "websocket_users ?mid = websocket_users self"
    by (simp add: send_each_registry)
  show "sent (send_message_to_user tr message user_id self) =
        sent self @ map (\<lambda>ws. (ws, message)) (filter (\<lambda>ws. send_text tr ws = None) conns)"
    by (simp add: eq send_each_sent)
  {
    fix ws
    assume ws: "ws \<in> set conns" "send_text tr ws \<noteq> None"
    then have bad: "ws \<in> set ?bad" by simp
    show "map_of (websocket_users (send_message_to_user tr message user_id self)) ws = None"
      using bad by (simp add: eq websocket_users_fold_disconnect)
    assume "map_of (websocket_users self) ws = Some user_id"
    with reg have "map_of (websocket_users ?mid) ws = Some user_id" by simp
    from channels_of_fold_disconnect_removed [OF bad this]
    show "ws \<notin> set (channels_of (send_message_to_user tr message user_id self) user_id)"
      by (simp add: eq)
  }
  {
    fix ws
    assume "ws \<notin> set conns \<or> send_text tr ws = None"
    then have nb: "ws \<notin> set ?bad" by auto
    show "map_of (websocket_users (send_message_to_user tr message user_id self)) ws
              = map_of (websocket_users self) ws"
      using nb reg by (auto simp: eq websocket_users_fold_disconnect)
    fix u
    show "(ws \<in> set (channels_of (send_message_to_user tr message user_id self) u))
                     = (ws \<in> set (channels_of self u))"
      using channels_of_fold_disconnect_other [OF nb, of ?mid u] by (simp add: eq)
  }
qed

theorem send_message_to_user_isolates_failures_witness:
  "map_of (active_connections three_channels) 1 = Some [10, 11]
   \<and> send_text example_transport 10 \<noteq> None
   \<and> send_text example_transport 11 = None
   \<and> sent (send_message_to_user example_transport [(''type'', JStr ''x'')] 1 three_channels)
       = [(11, [(''type'', JStr ''x'')])]
   \<and> map_of (websocket_users
         (send_message_to_user example_transport [(''type'', JStr ''x'')] 1 three_channels)) 10
       = None
   \<and> channels_of
         (send_message_to_user example_transport [(''type'', JStr ''x'')] 1 three_channels) 1
       = [11]
   \<and> channels_of
         (send_message_to_user example_transport [(''type'', JStr ''x'')] 1 three_channels) 2
       = [12]
   \<and> map_of (active_connections three_channels) 5 = None
   \<and> send_message_to_user example_transport [(''type'', JStr ''x'')] 5 three_channels
       = three_channels"
  using send_message_to_user_isolates_failures
          [of three_channels 1 example_transport "[(''type'', JStr ''x'')]"]
        send_message_to_user_isolates_failures
          [of three_channels 5 example_transport "[(''type'', JStr ''x'')]"]
  by (simp add: three_channels_def example_transport_def)
    (simp add: send_message_to_user_def disconnect_def set_discard_def channels_of_def)

text \<open>
  C8 (amended). On a channel whose send succeeds, a \<open>ping\<close> is answered on that channel
  with one \<open>pong\<close> carrying the message's \<open>timestamp\<close> field, and nothing else changes. A
  \<open>subscribe_ticket\<close> is acknowledged with \<open>subscription_confirmed\<close> and the ticket id
  only when the ticket id is truthy and the channel is registered under a non-zero
  identity; otherwise it is dropped without a reply and without a log record. A message
  of any other type only adds a log record: nothing is sent.
\<close>

theorem handle_client_message_replies:
  "(dict_get message ''type'' = JStr ''ping'' \<and> send_text tr ws = None \<longrightarrow>
      handle_client_message tr ws message self =
        self\<lparr>sent := sent self @
          [(ws, [(''type'', JStr ''pong''), (''timestamp'', dict_get message ''timestamp'')])]\<rparr>)
   \<and> (dict_get message ''type'' = JStr ''subscribe_ticket'' \<and> send_text tr ws = None
        \<and> truthy (dict_get message ''ticket_id'')
        \<and> map_of (websocket_users self) ws = Some u \<and> u \<noteq> 0 \<longrightarrow>
      sent (handle_client_message tr ws message self) =
        sent self @ [(ws, [(''type'', JStr ''subscription_confirmed''),
                           (''ticket_id'', dict_get message ''ticket_id'')])]
      \<and> logged (handle_client_message tr ws message self) =
        logged self @ [Subscribed u (dict_get message ''ticket_id'')]
      \<and> active_connections (handle_client_message tr ws message self) = active_connections self
      \<and> websocket_users (handle_client_message tr ws message self) = websocket_users self)
   \<and> (dict_get message ''type'' = JStr ''subscribe_ticket''
        \<and> (\<not> truthy (dict_get message ''ticket_id'')
            \<or> map_of (websocket_users self) ws = None
            \<or> map_of (websocket_users self) ws = Some 0) \<longrightarrow>
      handle_client_message tr ws message self = self)
   \<and> (dict_get message ''type'' \<noteq> JStr ''ping''
        \<and> dict_get message ''type'' \<noteq> JStr ''subscribe_ticket'' \<longrightarrow>
      handle_client_message tr ws message self =
        self\<lparr>logged := logged self @ [UnknownMessageType (dict_get message ''type'')]\<rparr>)"
  by (auto simp: handle_client_message_def send_personal_message_def split: option.splits)

theorem handle_client_message_replies_witness:
  "dict_get [(''type'', JStr ''ping''), (''timestamp'', JInt 17)] ''type'' = JStr ''ping''
   \<and> send_text good_transport 10 = None
   \<and> sent (handle_client_message good_transport 10
        [(''type'', JStr ''ping''), (''timestamp'', JInt 17)] example_manager)
       = [(10, [(''type'', JStr ''pong''), (''timestamp'', JInt 17)])]
   \<and> map_of (websocket_users example_manager) 10 = Some 7
   \<and> truthy (dict_get [(''type'', JStr ''subscribe_ticket''), (''ticket_id'', JInt 3)]
        ''ticket_id'')
   \<and> sent (handle_client_message good_transport 10
        [(''type'', JStr ''subscribe_ticket''), (''ticket_id'', JInt 3)] example_manager)
       = [(10, [(''type'', JStr ''subscription_confirmed''), (''ticket_id'', JInt 3)])]
   \<and> handle_client_message good_transport 10
        [(''type'', JStr ''subscribe_ticket''), (''ticket_id'', JInt 0)] example_manager
       = example_manager
   \<and> handle_client_message good_transport 10 [(''type'', JStr ''hello'')] example_manager
       = example_manager\<lparr>logged := [UnknownMessageType (JStr ''hello'')]\<rparr>"
  using handle_client_message_replies [of "[(''type'', JStr ''ping''), (''timestamp'', JInt 17)]"
          good_transport 10 example_manager 7]
        handle_client_message_replies
          [of "[(''type'', JStr ''subscribe_ticket''), (''ticket_id'', JInt 3)]"
          good_transport 10 example_manager 7]
        handle_client_message_replies
          [of "[(''type'', JStr ''subscribe_ticket''), (''ticket_id'', JInt 0)]"
          good_transport 10 example_manager 7]
        handle_client_message_replies [of "[(''type'', JStr ''hello'')]"
          good_transport 10 example_manager 7]
  by (simp add: dict_get_def good_transport_def example_manager_def)

text \<open>
  C8 as stated fails: channel 10 is registered and its sends succeed, yet a
  \<open>subscribe_ticket\<close> message without a ticket id, or with ticket id 0, gets no
  acknowledgement: nothing is sent and nothing is logged.
\<close>

theorem subscribe_without_ticket_id_counterexample:
  "map_of (websocket_users example_manager) 10 = Some 7
   \<and> send_text good_transport 10 = None
   \<and> sent (handle_client_message good_transport 10 [(''type'', JStr ''subscribe_ticket'')]
        example_manager) = []
   \<and> sent (handle_client_message good_transport 10
        [(''type'', JStr ''subscribe_ticket''), (''ticket_id'', JInt 0)] example_manager) = []
   \<and> logged (handle_client_message good_transport 10
        [(''type'', JStr ''subscribe_ticket''), (''ticket_id'', JInt 0)] example_manager) = []"
  by (simp add: handle_client_message_def dict_get_def good_transport_def example_manager_def)

text \<open>
  C10. Called with no identity (\<open>None\<close>) or with the falsy identity 0,
  \<open>send_ticket_update\<close> is \<open>broadcast_to_all\<close> of the \<open>ticket_update\<close> message: the
  message, which carries the type \<open>ticket_update\<close> and the ticket id, is delivered to every
  channel of every identity whose send succeeds.
\<close>

theorem send_ticket_update_without_owner_broadcasts:
  assumes "user_id = None \<or> user_id = Some 0"
  shows "send_ticket_update tr ticket_id update_data user_id self
           = broadcast_to_all tr (ticket_update_message ticket_id update_data) self
       \<and> sent (send_ticket_update tr ticket_id update_data user_id self)
           = sent self @ concat (map (\<lambda>(u, conns).
               map (\<lambda>w. (w, ticket_update_message ticket_id update_data))
                 (filter (\<lambda>w. send_text tr w = None) conns)) (active_connections self))
       \<and> (\<forall>(u, conns) \<in> set (active_connections self). \<forall>ws \<in> set conns.
             send_text tr ws = None \<longrightarrow>
             (ws, ticket_update_message ticket_id update_data)
               \<in> set (sent (send_ticket_update tr ticket_id update_data user_id self)))
       \<and> dict_get (ticket_update_message ticket_id update_data) ''type'' = JStr ''ticket_update''
       \<and> dict_get (ticket_update_message ticket_id update_data) ''ticket_id'' = JInt ticket_id"
proof -
  let ?m = "ticket_update_message ticket_id update_data"
  have eq: "send_ticket_update tr ticket_id update_data user_id self = broadcast_to_all tr ?m self"
    using assms by (auto simp: send_ticket_update_def)
  have s: "sent (broadcast_to_all tr ?m self)
           = sent self @ concat (map (\<lambda>(u, conns).
               map (\<lambda>w. (w, ?m)) (filter (\<lambda>w. send_text tr w = None) conns))
               (active_connections self))"
    by (rule broadcast_to_all_sent)
  have "\<forall>(u, conns) \<in> set (active_connections self). \<forall>ws \<in> set conns.
             send_text tr ws = None \<longrightarrow> (ws, ?m) \<in> set (sent (broadcast_to_all tr ?m self))"
    unfolding s by force
  moreover have "dict_get ?m ''type'' = JStr ''ticket_update''"
    and "dict_get ?m ''ticket_id'' = JInt ticket_id"
    by (simp_all add: ticket_update_message_def dict_get_def)
  ultimately show ?thesis using eq s by simp
qed

theorem send_ticket_update_without_owner_broadcasts_witness:
  "sent (send_ticket_update good_transport 4 [] None three_channels)
     = [(10, ticket_update_message 4 []), (11, ticket_update_message 4 []),
        (12, ticket_update_message 4 [])]
   \<and> sent (send_ticket_update example_transport 4 [] (Some 0) three_channels)
     = [(11, ticket_update_message 4 []), (12, ticket_update_message 4 [])]
   \<and> dict_get (ticket_update_message 4 []) ''ticket_id'' = JInt 4"
  using send_ticket_update_without_owner_broadcasts
          [of None good_transport 4 "[]" three_channels, THEN conjunct2, THEN conjunct1]
        send_ticket_update_without_owner_broadcasts
          [of "Some 0" example_transport 4 "[]" three_channels, THEN conjunct2, THEN conjunct1]
  by (simp add: three_channels_def good_transport_def example_transport_def
      ticket_update_message_def dict_get_def)

lemma registry_ok_init: "registry_ok init_manager"
  by (simp add: registry_ok_def init_manager_def channels_of_def)

lemma registry_ok_cong:
  "active_connections s' = active_connections s \<Longrightarrow> websocket_users s' = websocket_users s \<Longrightarrow>
   registry_ok s' = registry_ok s"
  by (simp add: registry_ok_def channels_of_def)

lemma active_connections_disconnect:
  "map_of (websocket_users self) ws = Some u0 \<Longrightarrow>
   map_of (active_connections (disconnect ws self)) u =
     (if u = u0 then
        (case map_of (active_connections self) u0 of
           None \<Rightarrow> None
         | Some c \<Rightarrow> if removeAll ws c = [] then None else Some (removeAll ws c))
      else map_of (active_connections self) u)"
  by (auto simp: disconnect_def set_discard_def update_conv' delete_conv' split: option.splits)

lemma distinct_keys_disconnect:
  "distinct (map fst (active_connections self)) \<Longrightarrow>
   distinct (map fst (websocket_users self)) \<Longrightarrow>
   distinct (map fst (active_connections (disconnect ws self)))
   \<and> distinct (map fst (websocket_users (disconnect ws self)))"
  by (auto simp: disconnect_def distinct_delete distinct_update split: option.splits)

lemma registry_ok_disconnect:
  assumes "registry_ok self"
  shows "registry_ok (disconnect ws self)"
proof (cases "map_of (websocket_users self) ws")
  case None
  with assms show ?thesis by (simp add: disconnect_unregistered)
next
  case (Some u0)
  from assms have d: "distinct (map fst (active_connections self))"
      "distinct (map fst (websocket_users self))"
    and ne: "\<And>u conns. map_of (active_connections self) u = Some conns \<Longrightarrow>
               distinct conns \<and> conns \<noteq> []"
    and ag: "\<And>w u. (map_of (websocket_users self) w = Some u) = (w \<in> set (channels_of self u))"
    by (auto simp: registry_ok_def)
  have 1: "\<And>u conns. map_of (active_connections (disconnect ws self)) u = Some conns \<Longrightarrow>
             distinct conns \<and> conns \<noteq> []"
  proof -
    fix u conns
    assume a: "map_of (active_connections (disconnect ws self)) u = Some conns"
    show "distinct conns \<and> conns \<noteq> []"
    proof (cases "u = u0")
      case False
      with a ne [of u conns] show ?thesis
        by (simp add: active_connections_disconnect [OF Some])
    next
      case True
      with a obtain c where c: "map_of (active_connections self) u0 = Some c"
        and r: "conns = removeAll ws c" "removeAll ws c \<noteq> []"
        by (cases "map_of (active_connections self) u0")
          (auto simp: active_connections_disconnect [OF Some] split: if_splits)
      from ne [OF c] r show ?thesis by (simp add: distinct_removeAll)
    qed
  qed
  have 2: "\<And>w u. (map_of (websocket_users (disconnect ws self)) w = Some u)
             = (w \<in> set (channels_of (disconnect ws self) u))"
  proof -
    fix w u
    show "(map_of (websocket_users (disconnect ws self)) w = Some u)
             = (w \<in> set (channels_of (disconnect ws self) u))"
    proof (cases "u = u0")
      case True
      with Some ag [of w u] show ?thesis
        by (auto simp: websocket_users_disconnect channels_of_disconnect)
    next
      case False
      with Some ag [of ws u] ag [of w u] show ?thesis
        by (auto simp: websocket_users_disconnect channels_of_disconnect)
    qed
  qed
  from distinct_keys_disconnect [OF d, of ws] 1 2 show ?thesis
    unfolding registry_ok_def by blast
qed

lemma registry_ok_fold_disconnect:
  "registry_ok self \<Longrightarrow> registry_ok (fold disconnect xs self)"
  by (induction xs arbitrary: self) (simp_all add: registry_ok_disconnect)

lemma registry_ok_send_personal_message:
  "registry_ok self \<Longrightarrow> registry_ok (send_personal_message tr m ws self)"
proof (cases "send_text tr ws")
  case None
  assume "registry_ok self"
  moreover have "registry_ok (self\<lparr>sent := sent self @ [(ws, m)]\<rparr>) = registry_ok self"
    by (rule registry_ok_cong) simp_all
  ultimately show ?thesis using None by (simp add: send_personal_message_def)
next
  case (Some e)
  assume "registry_ok self"
  moreover have "registry_ok (self\<lparr>logged := logged self @ [SendError e]\<rparr>) = registry_ok self"
    by (rule registry_ok_cong) simp_all
  ultimately show ?thesis using Some
    by (simp add: send_personal_message_def registry_ok_disconnect)
qed

lemma registry_ok_send_message_to_user:
  assumes "registry_ok self"
  shows "registry_ok (send_message_to_user tr m u self)"
proof (cases "map_of (active_connections self) u")
  case None
  with assms show ?thesis by (simp add: send_message_to_user_def)
next
  case (Some conns)
  have "registry_ok (fst (send_each tr (UserSendError u) m conns (self, []))) = registry_ok self"
    by (rule registry_ok_cong) (simp_all add: send_each_registry)
  with assms show ?thesis
    by (simp add: send_message_to_user_eq [OF Some] registry_ok_fold_disconnect)
qed

lemma registry_ok_broadcast_to_all:
  assumes "registry_ok self"
  shows "registry_ok (broadcast_to_all tr m self)"
proof -
  obtain s' d' where r: "broadcast_loop tr m (active_connections self) (self, []) = (s', d')"
    by (cases "broadcast_loop tr m (active_connections self) (self, [])")
  from broadcast_loop_registry [of tr m "active_connections self" self "[]"] r
  have "registry_ok s' = registry_ok self"
    by (intro registry_ok_cong) simp_all
  with assms r show ?thesis
    by (simp add: broadcast_to_all_def registry_ok_fold_disconnect)
qed

lemma registry_ok_send_ticket_update:
  "registry_ok self \<Longrightarrow> registry_ok (send_ticket_update tr t d u self)"
  by (simp add: send_ticket_update_def registry_ok_send_message_to_user
      registry_ok_broadcast_to_all split: option.splits)

lemma registry_ok_handle_client_message:
  assumes "registry_ok self"
  shows "registry_ok (handle_client_message tr ws m self)"
proof -
  have l: "\<And>r. registry_ok (self\<lparr>logged := logged self @ [r]\<rparr>)"
    using assms registry_ok_cong [of "self\<lparr>logged := logged self @ [r]\<rparr>" self for r] by simp
  show ?thesis
    using assms l
    by (simp add: handle_client_message_def registry_ok_send_personal_message
        split: option.splits)
qed

lemma registry_ok_register:
  assumes ok: "registry_ok self"
    and fresh: "map_of (websocket_users self) ws = None"
  shows "registry_ok
           (self\<lparr>active_connections :=
                   AList.update u
                     (set_add ws
                        (case map_of (active_connections self) u of
                           None \<Rightarrow> [] | Some conns \<Rightarrow> conns))
                     (active_connections self),
                 websocket_users := AList.update ws u (websocket_users self),
                 logged := logged self @ [Connected u]\<rparr>)"
    (is "registry_ok ?s")
proof -
  from ok have d: "distinct (map fst (active_connections self))"
      "distinct (map fst (websocket_users self))"
    and ne: "\<And>u conns. map_of (active_connections self) u = Some conns \<Longrightarrow>
               distinct conns \<and> conns \<noteq> []"
    and ag: "\<And>w u. (map_of (websocket_users self) w = Some u) = (w \<in> set (channels_of self u))"
    by (auto simp: registry_ok_def)
  have ch: "\<And>u'. channels_of ?s u' =
              (if u' = u then set_add ws (channels_of self u) else channels_of self u')"
    by (simp add: channels_of_def update_conv')
  have 1: "distinct (map fst (active_connections ?s))"
      "distinct (map fst (websocket_users ?s))"
    using d by (simp_all add: distinct_update)
  have 2: "\<And>u' conns. map_of (active_connections ?s) u' = Some conns \<Longrightarrow>
             distinct conns \<and> conns \<noteq> []"
    using ne by (auto simp: update_conv' set_add_def split: if_splits option.splits)
  have 3: "\<And>w u'. (map_of (websocket_users ?s) w = Some u') = (w \<in> set (channels_of ?s u'))"
  proof -
    fix w u'
    show "(map_of (websocket_users ?s) w = Some u') = (w \<in> set (channels_of ?s u'))"
    proof (cases "w = ws")
      case True
      have "(map_of (websocket_users ?s) ws = Some u') = (u' = u)"
        by (auto simp: update_conv')
      moreover have "(ws \<in> set (channels_of ?s u')) = (u' = u)"
        unfolding ch using fresh ag [of ws u']
        by (auto simp: set_add_def)
      ultimately show ?thesis using True by simp
    next
      case False
      have "(map_of (websocket_users ?s) w = Some u') = (map_of (websocket_users self) w = Some u')"
        using False by (simp add: update_conv')
      moreover have "(w \<in> set (channels_of ?s u')) = (w \<in> set (channels_of self u'))"
        unfolding ch using False by (auto simp: set_add_def)
      ultimately show ?thesis using ag [of w u'] by simp
    qed
  qed
  from 1 2 3 show ?thesis unfolding registry_ok_def by blast
qed

lemma registry_ok_step:
  assumes "registry_ok self" and "accepted_once tr op self"
  shows "registry_ok (step tr op self)"
proof (cases op)
  case (Connect ws u)
  show ?thesis
  proof (cases "accept tr ws")
    case (Some e)
    with assms(1) Connect show ?thesis by (simp add: connect_def)
  next
    case None
    with assms(2) Connect have "map_of (websocket_users self) ws = None"
      by (cases "map_of (websocket_users self) ws") simp_all
    from registry_ok_register [OF assms(1) this, of u] None Connect show ?thesis
      by (simp add: connect_def registry_ok_send_personal_message)
  qed
qed (simp_all add: assms(1) registry_ok_disconnect registry_ok_send_personal_message
      registry_ok_send_message_to_user registry_ok_broadcast_to_all
      registry_ok_send_ticket_update registry_ok_handle_client_message)

lemma registry_ok_run:
  "registry_ok self \<Longrightarrow> transport_accepts_once ops self \<Longrightarrow> registry_ok (run ops self)"
proof (induction ops arbitrary: self)
  case Nil
  then show ?case by simp
next
  case (Cons p ops)
  obtain tr op where p: "p = (tr, op)" by (cases p)
  with Cons.prems have "registry_ok (step tr op self)"
    and "transport_accepts_once ops (step tr op self)"
    by (simp_all add: registry_ok_step)
  from Cons.IH [OF this] p show ?case by simp
qed

lemma registry_ok_count:
  assumes "registry_ok self"
  shows "get_connection_count self = length (websocket_users self)"
proof -
  let ?ac = "active_connections self" and ?wu = "websocket_users self"
  from assms have dk: "distinct (map fst ?ac)" and dw: "distinct (map fst ?wu)"
    and ne: "\<And>u conns. map_of ?ac u = Some conns \<Longrightarrow> distinct conns \<and> conns \<noteq> []"
    and ag: "\<And>w u. (map_of ?wu w = Some u) = (w \<in> set (channels_of self u))"
    by (auto simp: registry_ok_def)
  have mem: "\<And>u c. (u, c) \<in> set ?ac \<Longrightarrow> map_of ?ac u = Some c"
    using dk by simp
  have dac: "distinct ?ac" using dk by (rule distinct_map [THEN iffD1, THEN conjunct1])
  have "get_connection_count self = (\<Sum>p\<in>set ?ac. length (snd p))"
    using dac by (simp add: get_connection_count_def sum_list_distinct_conv_sum_set
        case_prod_unfold)
  also have "\<dots> = (\<Sum>p\<in>set ?ac. card (set (snd p)))"
  proof (rule sum.cong)
    fix p assume "p \<in> set ?ac"
    then have "map_of ?ac (fst p) = Some (snd p)" using mem [of "fst p" "snd p"] by simp
    from ne [OF this] show "length (snd p) = card (set (snd p))"
      by (simp add: distinct_card)
  qed simp
  also have "\<dots> = card (\<Union>p\<in>set ?ac. set (snd p))"
  proof (rule card_UN_disjoint [symmetric])
    show "finite (set ?ac)" by simp
    show "\<forall>p\<in>set ?ac. finite (set (snd p))" by simp
    show "\<forall>p\<in>set ?ac. \<forall>q\<in>set ?ac. p \<noteq> q \<longrightarrow> set (snd p) \<inter> set (snd q) = {}"
    proof (intro ballI impI)
      fix p q assume p: "p \<in> set ?ac" and q: "q \<in> set ?ac" and pq: "p \<noteq> q"
      from p q have mp: "map_of ?ac (fst p) = Some (snd p)"
        and mq: "map_of ?ac (fst q) = Some (snd q)"
        using mem [of "fst p" "snd p"] mem [of "fst q" "snd q"] by simp_all
      have fk: "fst p \<noteq> fst q"
      proof
        assume "fst p = fst q"
        with mp mq have "snd p = snd q" by simp
        with \<open>fst p = fst q\<close> pq show False by (simp add: prod_eq_iff)
      qed
      show "set (snd p) \<inter> set (snd q) = {}"
      proof (rule ccontr)
        assume "set (snd p) \<inter> set (snd q) \<noteq> {}"
        then obtain w where "w \<in> set (snd p)" "w \<in> set (snd q)" by auto
        with mp mq have "w \<in> set (channels_of self (fst p))" "w \<in> set (channels_of self (fst q))"
          by (simp_all add: channels_of_def)
        with ag [of w "fst p"] ag [of w "fst q"] fk show False by simp
      qed
    qed
  qed
  also have "(\<Union>p\<in>set ?ac. set (snd p)) = fst ` set ?wu"
  proof (intro set_eqI iffI)
    fix w assume "w \<in> (\<Union>p\<in>set ?ac. set (snd p))"
    then obtain p where p: "p \<in> set ?ac" and w: "w \<in> set (snd p)" by auto
    from p have "map_of ?ac (fst p) = Some (snd p)" using mem [of "fst p" "snd p"] by simp
    with w have "w \<in> set (channels_of self (fst p))" by (simp add: channels_of_def)
    with ag [of w "fst p"] have "map_of ?wu w = Some (fst p)" by simp
    then have "(w, fst p) \<in> set ?wu" by (rule map_of_SomeD)
    then show "w \<in> fst ` set ?wu" by force
  next
    fix w assume "w \<in> fst ` set ?wu"
    then obtain u where "(w, u) \<in> set ?wu" by auto
    with dw have "map_of ?wu w = Some u" by simp
    with ag [of w u] have "w \<in> set (channels_of self u)" by simp
    then obtain c where "map_of ?ac u = Some c" and "w \<in> set c"
      by (cases "map_of ?ac u") (auto simp: channels_of_def)
    then have "(u, c) \<in> set ?ac" by (auto dest: map_of_SomeD)
    with \<open>w \<in> set c\<close> show "w \<in> (\<Union>p\<in>set ?ac. set (snd p))" by force
  qed
  also have "card (fst ` set ?wu) = length ?wu"
    using dw distinct_card [of "map fst ?wu"] by simp
  finally show ?thesis .
qed

text \<open>
  C9. Starting from the empty registry, under every sequence of connect, disconnect and
  send operations, on a transport whose \<open>accept\<close> raises for a channel that is
  registered (the framework's socket is accepted once), the two dictionaries stay
  consistent: a channel is a key of \<open>websocket_users\<close> with value \<open>u\<close> exactly when it is
  in the set of \<open>u\<close> in \<open>active_connections\<close>, no identity is mapped to an empty set, keys
  and members are without duplicates, and the connection count equals the number of
  entries of \<open>websocket_users\<close>.
\<close>

theorem registry_consistent_in_every_run:
  assumes "transport_accepts_once ops init_manager"
  shows "(\<forall>ws u. (map_of (websocket_users (run ops init_manager)) ws = Some u)
                  = (ws \<in> set (channels_of (run ops init_manager) u)))
       \<and> (\<forall>u. map_of (active_connections (run ops init_manager)) u \<noteq> Some [])
       \<and> (\<forall>u conns. map_of (active_connections (run ops init_manager)) u = Some conns
             \<longrightarrow> distinct conns)
       \<and> distinct (map fst (active_connections (run ops init_manager)))
       \<and> distinct (map fst (websocket_users (run ops init_manager)))
       \<and> get_connection_count (run ops init_manager)
           = length (websocket_users (run ops init_manager))"
proof -
  have ok: "registry_ok (run ops init_manager)"
    using registry_ok_init assms by (rule registry_ok_run)
  then have "get_connection_count (run ops init_manager)
           = length (websocket_users (run ops init_manager))"
    by (rule registry_ok_count)
  moreover from ok have "\<forall>u. map_of (active_connections (run ops init_manager)) u \<noteq> Some []"
    unfolding registry_ok_def by blast
  ultimately show ?thesis using ok unfolding registry_ok_def by blast
qed

theorem registry_consistent_in_every_run_witness:
  "transport_accepts_once example_run init_manager
   \<and> active_connections (run example_run init_manager) = [(1, [11]), (2, [12])]
   \<and> websocket_users (run example_run init_manager) = [(11, 1), (12, 2)]
   \<and> get_connection_count (run example_run init_manager) = 2
   \<and> length (websocket_users (run example_run init_manager)) = 2
   \<and> transport_accepts_once reconnect_run init_manager
   \<and> active_connections (run reconnect_run init_manager) = [(1, [10])]
   \<and> websocket_users (run reconnect_run init_manager) = [(10, 1)]
   \<and> get_connection_count (run reconnect_run init_manager) = 1
   \<and> length (websocket_users (run reconnect_run init_manager)) = 1"
proof -
  have r: "active_connections (run example_run init_manager) = [(1, [11]), (2, [12])]
      \<and> websocket_users (run example_run init_manager) = [(11, 1), (12, 2)]"
    by (simp add: example_run_def init_manager_def good_transport_def example_transport_def
        connect_def send_personal_message_def set_add_def broadcast_to_all_def disconnect_def
        set_discard_def)
  have f: "transport_accepts_once example_run init_manager"
    by (simp add: example_run_def init_manager_def good_transport_def example_transport_def
        connect_def send_personal_message_def set_add_def)
  have r': "active_connections (run reconnect_run init_manager) = [(1, [10])]
      \<and> websocket_users (run reconnect_run init_manager) = [(10, 1)]"
    by (simp add: reconnect_run_def init_manager_def good_transport_def accepted_transport_def
        connect_def send_personal_message_def set_add_def)
  have f': "transport_accepts_once reconnect_run init_manager"
    by (simp add: reconnect_run_def init_manager_def good_transport_def accepted_transport_def
        connect_def send_personal_message_def set_add_def)
  from registry_consistent_in_every_run [OF f] registry_consistent_in_every_run [OF f']
    r f r' f'
  show ?thesis by simp
qed

section \<open>Properties of the orchestrator and the endpoints\<close>

text \<open>
  C1 (amended). The reprocess endpoint has no check of the ticket's status. It refuses in
  two cases only, and then changes nothing: 404 when the ticket is absent, 403 when the
  caller is neither an admin nor the ticket's creator. For every other call, whatever the
  status of the ticket, it answers success; the ticket's status becomes PENDING, its error
  text and its result payload are cleared, its update time is set, and one job for the
  same ticket id is put on the queue; nothing else changes.
\<close>

theorem reprocess_ticket_resets:
  "(tickets sys ticket_id = None \<longrightarrow>
      reprocess_ticket current_user now ticket_id sys =
        (Inl (HTTPException 404 ''Ticket not found''), sys))
   \<and> (\<forall>ticket. tickets sys ticket_id = Some ticket \<longrightarrow>
        (role current_user \<noteq> ''admin'' \<and> created_by ticket \<noteq> id' current_user \<longrightarrow>
           reprocess_ticket current_user now ticket_id sys =
             (Inl (HTTPException 403 ''Not authorized to reprocess this ticket''), sys))
        \<and> (role current_user = ''admin'' \<or> created_by ticket = id' current_user \<longrightarrow>
             fst (reprocess_ticket current_user now ticket_id sys) =
               Inr [(''message'', JStr ''Ticket queued for reprocessing'')]
             \<and> tickets (snd (reprocess_ticket current_user now ticket_id sys)) =
                 (tickets sys)(ticket_id \<mapsto>
                    ticket\<lparr>status := PENDING, error_message := None, result_data := [],
                           updated_at := now\<rparr>)
             \<and> map_option status
                 (tickets (snd (reprocess_ticket current_user now ticket_id sys)) ticket_id)
                 = Some PENDING
             \<and> map_option error_message
                 (tickets (snd (reprocess_ticket current_user now ticket_id sys)) ticket_id)
                 = Some None
             \<and> map_option result_data
                 (tickets (snd (reprocess_ticket current_user now ticket_id sys)) ticket_id)
                 = Some []
             \<and> task_queue (snd (reprocess_ticket current_user now ticket_id sys))
                 = task_queue sys @ [ticket_id]
             \<and> audit_logs (snd (reprocess_ticket current_user now ticket_id sys))
                 = audit_logs sys
             \<and> task_log (snd (reprocess_ticket current_user now ticket_id sys)) = task_log sys
             \<and> manager (snd (reprocess_ticket current_user now ticket_id sys))
                 = manager sys))"
  by (auto simp: reprocess_ticket_def)

theorem reprocess_ticket_resets_witness:
  "tickets (example_system (example_ticket PROCESSING CUSTOM None)) 2 = None
   \<and> reprocess_ticket admin_user 9 2 (example_system (example_ticket PROCESSING CUSTOM None))
       = (Inl (HTTPException 404 ''Ticket not found''),
          example_system (example_ticket PROCESSING CUSTOM None))
   \<and> tickets (example_system (example_ticket PROCESSING CUSTOM None)) 1
       = Some (example_ticket PROCESSING CUSTOM None)
   \<and> role \<lparr>id' = 8, role = ''user''\<rparr> \<noteq> ''admin''
   \<and> created_by (example_ticket PROCESSING CUSTOM None) \<noteq> id' \<lparr>id' = 8, role = ''user''\<rparr>
   \<and> reprocess_ticket \<lparr>id' = 8, role = ''user''\<rparr> 9 1
          (example_system (example_ticket PROCESSING CUSTOM None))
       = (Inl (HTTPException 403 ''Not authorized to reprocess this ticket''),
          example_system (example_ticket PROCESSING CUSTOM None))
   \<and> role admin_user = ''admin''
   \<and> fst (reprocess_ticket admin_user 9 1
          (example_system (example_ticket PROCESSING CUSTOM None)))
       = Inr [(''message'', JStr ''Ticket queued for reprocessing'')]
   \<and> map_option status
       (tickets (snd (reprocess_ticket admin_user 9 1
          (example_system (example_ticket PROCESSING CUSTOM None)))) 1) = Some PENDING
   \<and> task_queue (snd (reprocess_ticket admin_user 9 1
          (example_system (example_ticket PROCESSING CUSTOM None)))) = [1, 1]"
proof -
  let ?t = "example_ticket PROCESSING CUSTOM None"
  let ?sys = "example_system ?t"
  let ?u = "\<lparr>id' = 8, role = ''user''\<rparr>"
  have n: "tickets ?sys 2 = None" and t: "tickets ?sys 1 = Some ?t"
    and q: "task_queue ?sys = [1]"
    by (simp_all add: example_system_def)
  have u: "role ?u \<noteq> ''admin''" "created_by ?t \<noteq> id' ?u"
    and a: "role admin_user = ''admin''"
    by (simp_all add: example_ticket_def admin_user_def)
  from reprocess_ticket_resets [of ?sys 2 admin_user 9] n
  have 1: "reprocess_ticket admin_user 9 2 ?sys
       = (Inl (HTTPException 404 ''Ticket not found''), ?sys)"
    by simp
  from reprocess_ticket_resets [of ?sys 1 ?u 9] t u
  have 2: "reprocess_ticket ?u 9 1 ?sys
       = (Inl (HTTPException 403 ''Not authorized to reprocess this ticket''), ?sys)"
    by simp
  from reprocess_ticket_resets [of ?sys 1 admin_user 9] t a q
  have 3: "fst (reprocess_ticket admin_user 9 1 ?sys)
       = Inr [(''message'', JStr ''Ticket queued for reprocessing'')]
     \<and> map_option status (tickets (snd (reprocess_ticket admin_user 9 1 ?sys)) 1)
       = Some PENDING
     \<and> task_queue (snd (reprocess_ticket admin_user 9 1 ?sys)) = [1, 1]"
    by simp
  from n t u a 1 2 3 show ?thesis by simp
qed

text \<open>
  C1 as stated fails: reprocessing ticket 1 while it is PENDING and has a job on the queue
  is answered with success, not refused; the record is rewritten (its update time changes)
  and a second job for the same ticket is queued.
\<close>

theorem reprocess_pending_counterexample:
  "status (example_ticket PENDING CUSTOM None) = PENDING
   \<and> fst (reprocess_ticket admin_user 9 1 (example_system (example_ticket PENDING CUSTOM None)))
       = Inr [(''message'', JStr ''Ticket queued for reprocessing'')]
   \<and> tickets (snd (reprocess_ticket admin_user 9 1
        (example_system (example_ticket PENDING CUSTOM None)))) 1
       \<noteq> tickets (example_system (example_ticket PENDING CUSTOM None)) 1
   \<and> task_queue (snd (reprocess_ticket admin_user 9 1
        (example_system (example_ticket PENDING CUSTOM None)))) = [1, 1]"
  by (simp add: reprocess_ticket_def example_system_def example_ticket_def admin_user_def)

lemma process_ticket_async_found:
  "tickets sys ticket_id = Some ticket \<Longrightarrow>
   process_ticket_async env ticket_id sys =
     (case dispatch env (ticket\<lparr>status := PROCESSING\<rparr>) of
        Inr result \<Rightarrow>
          (Inr [(''status'', JStr ''completed''), (''ticket_id'', JInt ticket_id),
                (''result'', JObj result)],
           sys\<lparr>tickets := (tickets sys)(ticket_id \<mapsto>
                  ticket\<lparr>result_data := result, status := COMPLETED,
                         completed_at := Some (utcnow env),
                         ai_model_used := Some (model_name env),
                         tokens_used := dict_get_default result ''tokens_used'' (JInt 0)\<rparr>),
               audit_logs := audit_logs sys @
                 [\<lparr>action = ''ai_processing_started'', entity_type = ''ticket'',
                   entity_id = ticket_id, description' = ProcessingStarted (task_type ticket),
                   metadata = [(''celery_task_id'', request_id env)], timestamp = utcnow env\<rparr>,
                  \<lparr>action = ''ai_processing_completed'', entity_type = ''ticket'',
                   entity_id = ticket_id, description' = ProcessingCompleted,
                   metadata = [(''tokens_used'',
                                dict_get_default result ''tokens_used'' (JInt 0))],
                   timestamp = utcnow env\<rparr>]\<rparr>)
      | Inl e \<Rightarrow>
          (Inl e,
           sys\<lparr>tickets := (tickets sys)(ticket_id \<mapsto>
                  ticket\<lparr>status := FAILED, error_message := Some (str_exn e)\<rparr>),
               audit_logs := audit_logs sys @
                 [\<lparr>action = ''ai_processing_started'', entity_type = ''ticket'',
                   entity_id = ticket_id, description' = ProcessingStarted (task_type ticket),
                   metadata = [(''celery_task_id'', request_id env)], timestamp = utcnow env\<rparr>,
                  \<lparr>action = ''ai_processing_failed'', entity_type = ''ticket'',
                   entity_id = ticket_id, description' = ProcessingFailed (str_exn e),
                   metadata = [(''error'', JStr (str_exn e))], timestamp = utcnow env\<rparr>]\<rparr>))"
  by (simp add: process_ticket_async_def log_audit_event_def Let_def split: sum.splits)

lemma dispatch_status [simp]:
  "dispatch env (ticket\<lparr>status := s\<rparr>) = dispatch env ticket"
  by (simp add: dispatch_def process_pr_review_def process_doc_analysis_def
      process_paper_writing_def process_snowflake_query_def process_custom_task_def
      split: option.splits TaskType.splits)

lemma manager_process_ticket_async:
  "manager (snd (process_ticket_async env ticket_id sys)) = manager sys"
  by (simp add: process_ticket_async_def log_audit_event_def Let_def
      split: option.splits sum.splits)

lemma manager_mark_ticket_failed: "manager (mark_ticket_failed ticket_id msg sys) = manager sys"
  by (simp add: mark_ticket_failed_def split: option.splits)

lemma process_ticket_task_found:
  "tickets sys ticket_id = Some ticket \<Longrightarrow>
   process_ticket_task env ticket_id sys =
     (case process_ticket_async env ticket_id sys of
        (Inr result, sys') \<Rightarrow> (Inr result, sys')
      | (Inl e, sys') \<Rightarrow>
          (Inl e, sys'\<lparr>task_log := task_log sys' @ [(ticket_id, str_exn e)]\<rparr>))"
  by (auto simp: process_ticket_task_def process_ticket_async_found mark_ticket_failed_def
      split: sum.splits)

lemma example_dispatch_custom:
  "dispatch example_job (example_ticket st CUSTOM done) =
     Inl (AttributeError
            ([CHR 0x27] @ ''ChatCompletionMessage'' @ [CHR 0x27] @ '' object has no attribute ''
               @ [CHR 0x27] @ ''usage'' @ [CHR 0x27]))"
  by (simp add: dispatch_def process_custom_task_def example_job_def example_ticket_def
      bind_exn_def total_tokens_def)

lemma example_dispatch_query:
  "dispatch example_job (query_ticket st done) =
     Inr [(''query_request'', JStr ''count users''),
          (''query_result'', call_cortex_analyst ''count users''),
          (''tokens_used'', JInt 0),
          (''model_used'', JStr ''MCP Snowflake'')]"
  by (simp add: dispatch_def process_snowflake_query_def example_job_def query_ticket_def
      example_ticket_def bind_exn_def dict_get_def)

lemma example_dispatch_snowflake:
  "dispatch example_job (example_ticket st SNOWFLAKE_QUERY done) =
     Inl (ValueError ''Query request is required for Snowflake task'')"
  by (simp add: dispatch_def process_snowflake_query_def example_ticket_def dict_get_def)

text \<open>
  C2 (amended). The executor has no guard on the lifecycle. A job run is refused only when
  the ticket id is absent: then it raises \<open>ValueError\<close> and changes nothing. An existing
  ticket is never refused: whatever its status, the status is overwritten with PROCESSING
  and the handler for its task type is invoked on it. When the handler returns a result,
  the run returns it, the ticket is COMPLETED with that result and the audit log gains the
  start and the completion; when the handler raises, the run raises the same error, the
  ticket is FAILED with the error's text and the audit log gains the start and the
  failure. The outcome is the same for every prior status, so a ticket already in
  PROCESSING is processed again.
\<close>

theorem process_ticket_async_no_guard:
  "(tickets sys ticket_id = None \<longrightarrow>
      process_ticket_async env ticket_id sys =
        (Inl (ValueError (''Ticket '' @ str_int ticket_id @ '' not found'')), sys))
   \<and> (\<forall>ticket. tickets sys ticket_id = Some ticket \<longrightarrow>
        (\<forall>s. process_ticket_async env ticket_id
               (sys\<lparr>tickets := (tickets sys)(ticket_id \<mapsto> ticket\<lparr>status := s\<rparr>)\<rparr>)
             = process_ticket_async env ticket_id sys)
        \<and> (map_option status (tickets (snd (process_ticket_async env ticket_id sys)) ticket_id)
              = Some COMPLETED
           \<or> map_option status (tickets (snd (process_ticket_async env ticket_id sys)) ticket_id)
              = Some FAILED)
        \<and> (\<forall>result. dispatch env (ticket\<lparr>status := PROCESSING\<rparr>) = Inr result \<longrightarrow>
              process_ticket_async env ticket_id sys =
                (Inr [(''status'', JStr ''completed''), (''ticket_id'', JInt ticket_id),
                      (''result'', JObj result)],
                 sys\<lparr>tickets := (tickets sys)(ticket_id \<mapsto>
                        ticket\<lparr>result_data := result, status := COMPLETED,
                               completed_at := Some (utcnow env),
                               ai_model_used := Some (model_name env),
                               tokens_used :=
                                 dict_get_default result ''tokens_used'' (JInt 0)\<rparr>),
                     audit_logs := audit_logs sys @
                       [\<lparr>action = ''ai_processing_started'', entity_type = ''ticket'',
                         entity_id = ticket_id,
                         description' = ProcessingStarted (task_type ticket),
                         metadata = [(''celery_task_id'', request_id env)],
                         timestamp = utcnow env\<rparr>,
                        \<lparr>action = ''ai_processing_completed'', entity_type = ''ticket'',
                         entity_id = ticket_id, description' = ProcessingCompleted,
                         metadata = [(''tokens_used'',
                                      dict_get_default result ''tokens_used'' (JInt 0))],
                         timestamp = utcnow env\<rparr>]\<rparr>))
        \<and> (\<forall>e. dispatch env (ticket\<lparr>status := PROCESSING\<rparr>) = Inl e \<longrightarrow>
              process_ticket_async env ticket_id sys =
                (Inl e,
                 sys\<lparr>tickets := (tickets sys)(ticket_id \<mapsto>
                        ticket\<lparr>status := FAILED, error_message := Some (str_exn e)\<rparr>),
                     audit_logs := audit_logs sys @
                       [\<lparr>action = ''ai_processing_started'', entity_type = ''ticket'',
                         entity_id = ticket_id,
                         description' = ProcessingStarted (task_type ticket),
                         metadata = [(''celery_task_id'', request_id env)],
                         timestamp = utcnow env\<rparr>,
                        \<lparr>action = ''ai_processing_failed'', entity_type = ''ticket'',
                         entity_id = ticket_id, description' = ProcessingFailed (str_exn e),
                         metadata = [(''error'', JStr (str_exn e))],
                         timestamp = utcnow env\<rparr>]\<rparr>)))"
proof (intro conjI impI allI)
  assume "tickets sys ticket_id = None"
  then show "process_ticket_async env ticket_id sys =
        (Inl (ValueError (''Ticket '' @ str_int ticket_id @ '' not found'')), sys)"
    by (simp add: process_ticket_async_def)
next
  fix ticket s
  assume t: "tickets sys ticket_id = Some ticket"
  let ?sys = "sys\<lparr>tickets := (tickets sys)(ticket_id \<mapsto> ticket\<lparr>status := s\<rparr>)\<rparr>"
  have "tickets ?sys ticket_id = Some (ticket\<lparr>status := s\<rparr>)" by simp
  from process_ticket_async_found [OF this, of env] process_ticket_async_found [OF t, of env]
  show "process_ticket_async env ticket_id ?sys = process_ticket_async env ticket_id sys"
    by (simp add: dispatch_status split: sum.splits)
next
  fix ticket
  assume t: "tickets sys ticket_id = Some ticket"
  show "map_option status (tickets (snd (process_ticket_async env ticket_id sys)) ticket_id)
              = Some COMPLETED
           \<or> map_option status (tickets (snd (process_ticket_async env ticket_id sys)) ticket_id)
              = Some FAILED"
    by (simp add: process_ticket_async_found [OF t] split: sum.splits)
next
  fix ticket result
  assume t: "tickets sys ticket_id = Some ticket"
    and "dispatch env (ticket\<lparr>status := PROCESSING\<rparr>) = Inr result"
  then have d: "dispatch env ticket = Inr result" by simp
  show "process_ticket_async env ticket_id sys =
                (Inr [(''status'', JStr ''completed''), (''ticket_id'', JInt ticket_id),
                      (''result'', JObj result)],
                 sys\<lparr>tickets := (tickets sys)(ticket_id \<mapsto>
                        ticket\<lparr>result_data := result, status := COMPLETED,
                               completed_at := Some (utcnow env),
                               ai_model_used := Some (model_name env),
                               tokens_used :=
                                 dict_get_default result ''tokens_used'' (JInt 0)\<rparr>),
                     audit_logs := audit_logs sys @
                       [\<lparr>action = ''ai_processing_started'', entity_type = ''ticket'',
                         entity_id = ticket_id,
                         description' = ProcessingStarted (task_type ticket),
                         metadata = [(''celery_task_id'', request_id env)],
                         timestamp = utcnow env\<rparr>,
                        \<lparr>action = ''ai_processing_completed'', entity_type = ''ticket'',
                         entity_id = ticket_id, description' = ProcessingCompleted,
                         metadata = [(''tokens_used'',
                                      dict_get_default result ''tokens_used'' (JInt 0))],
                         timestamp = utcnow env\<rparr>]\<rparr>)"
    by (simp add: process_ticket_async_found [OF t] d)
next
  fix ticket e
  assume t: "tickets sys ticket_id = Some ticket"
    and "dispatch env (ticket\<lparr>status := PROCESSING\<rparr>) = Inl e"
  then have d: "dispatch env ticket = Inl e" by simp
  show "process_ticket_async env ticket_id sys =
                (Inl e,
                 sys\<lparr>tickets := (tickets sys)(ticket_id \<mapsto>
                        ticket\<lparr>status := FAILED, error_message := Some (str_exn e)\<rparr>),
                     audit_logs := audit_logs sys @
                       [\<lparr>action = ''ai_processing_started'', entity_type = ''ticket'',
                         entity_id = ticket_id,
                         description' = ProcessingStarted (task_type ticket),
                         metadata = [(''celery_task_id'', request_id env)],
                         timestamp = utcnow env\<rparr>,
                        \<lparr>action = ''ai_processing_failed'', entity_type = ''ticket'',
                         entity_id = ticket_id, description' = ProcessingFailed (str_exn e),
                         metadata = [(''error'', JStr (str_exn e))],
                         timestamp = utcnow env\<rparr>]\<rparr>)"
    by (simp add: process_ticket_async_found [OF t] d)
qed

theorem process_ticket_async_no_guard_witness:
  "tickets (example_system (query_ticket PROCESSING None)) 2 = None
   \<and> process_ticket_async example_job 2 (example_system (query_ticket PROCESSING None))
       = (Inl (ValueError ''Ticket 2 not found''), example_system (query_ticket PROCESSING None))
   \<and> tickets (example_system (query_ticket PROCESSING None)) 1
       = Some (query_ticket PROCESSING None)
   \<and> process_ticket_async example_job 1 (example_system (query_ticket PENDING None))
       = process_ticket_async example_job 1 (example_system (query_ticket PROCESSING None))
   \<and> dispatch example_job ((query_ticket PROCESSING None)\<lparr>status := PROCESSING\<rparr>)
       = Inr [(''query_request'', JStr ''count users''),
              (''query_result'', call_cortex_analyst ''count users''),
              (''tokens_used'', JInt 0), (''model_used'', JStr ''MCP Snowflake'')]
   \<and> map_option status (tickets (snd (process_ticket_async example_job 1
        (example_system (query_ticket PROCESSING None)))) 1) = Some COMPLETED
   \<and> tickets (example_system (example_ticket PROCESSING SNOWFLAKE_QUERY None)) 1
       = Some (example_ticket PROCESSING SNOWFLAKE_QUERY None)
   \<and> dispatch example_job
        ((example_ticket PROCESSING SNOWFLAKE_QUERY None)\<lparr>status := PROCESSING\<rparr>)
       = Inl (ValueError ''Query request is required for Snowflake task'')
   \<and> fst (process_ticket_async example_job 1
        (example_system (example_ticket PROCESSING SNOWFLAKE_QUERY None)))
       = Inl (ValueError ''Query request is required for Snowflake task'')
   \<and> map_option status (tickets (snd (process_ticket_async example_job 1
        (example_system (example_ticket PROCESSING SNOWFLAKE_QUERY None)))) 1) = Some FAILED"
proof -
  let ?q = "query_ticket PROCESSING None"
  let ?f = "example_ticket PROCESSING SNOWFLAKE_QUERY None"
  let ?sys = "example_system ?q"
  have n: "tickets ?sys 2 = None" and t: "tickets ?sys 1 = Some ?q"
    and t': "tickets (example_system ?f) 1 = Some ?f"
    by (simp_all add: example_system_def)
  have s: "str_int 2 = ''2''"
    by code_simp
  have u: "?sys\<lparr>tickets := (tickets ?sys)(1 \<mapsto> ?q\<lparr>status := PENDING\<rparr>)\<rparr>
           = example_system (query_ticket PENDING None)"
    by (simp add: example_system_def query_ticket_def example_ticket_def)
  have d: "dispatch example_job (?q\<lparr>status := PROCESSING\<rparr>)
       = Inr [(''query_request'', JStr ''count users''),
              (''query_result'', call_cortex_analyst ''count users''),
              (''tokens_used'', JInt 0), (''model_used'', JStr ''MCP Snowflake'')]"
    by (simp add: dispatch_status example_dispatch_query)
  have d': "dispatch example_job (?f\<lparr>status := PROCESSING\<rparr>)
       = Inl (ValueError ''Query request is required for Snowflake task'')"
    by (simp add: dispatch_status example_dispatch_snowflake)
  from process_ticket_async_no_guard [of ?sys 2 example_job] n s
  have 1: "process_ticket_async example_job 2 ?sys = (Inl (ValueError ''Ticket 2 not found''), ?sys)"
    by simp
  from process_ticket_async_no_guard [of ?sys 1 example_job] t
  have "process_ticket_async example_job 1
          (?sys\<lparr>tickets := (tickets ?sys)(1 \<mapsto> ?q\<lparr>status := PENDING\<rparr>)\<rparr>)
        = process_ticket_async example_job 1 ?sys"
    by simp
  with u have 2: "process_ticket_async example_job 1 (example_system (query_ticket PENDING None))
        = process_ticket_async example_job 1 ?sys"
    by simp
  from process_ticket_async_no_guard [of ?sys 1 example_job] t d
  have 3: "map_option status (tickets (snd (process_ticket_async example_job 1 ?sys)) 1)
        = Some COMPLETED"
    by simp
  from process_ticket_async_no_guard [of "example_system ?f" 1 example_job] t' d'
  have 4: "fst (process_ticket_async example_job 1 (example_system ?f))
        = Inl (ValueError ''Query request is required for Snowflake task'')
      \<and> map_option status (tickets (snd (process_ticket_async example_job 1
            (example_system ?f))) 1) = Some FAILED"
    by simp
  from n t t' d d' 1 2 3 4 show ?thesis by simp
qed

text \<open>
  C2 as stated fails: ticket 1 is already in PROCESSING when the job is delivered again.
  The run is not refused: the handler is invoked, the query is executed again, the run
  returns its result and the ticket ends COMPLETED, with two more audit entries.
\<close>

theorem duplicate_delivery_counterexample:
  "status (query_ticket PROCESSING None) = PROCESSING
   \<and> fst (process_ticket_async example_job 1 (example_system (query_ticket PROCESSING None)))
       = Inr [(''status'', JStr ''completed''), (''ticket_id'', JInt 1),
              (''result'', JObj [(''query_request'', JStr ''count users''),
                                 (''query_result'', call_cortex_analyst ''count users''),
                                 (''tokens_used'', JInt 0),
                                 (''model_used'', JStr ''MCP Snowflake'')])]
   \<and> map_option status (tickets (snd (process_ticket_async example_job 1
        (example_system (query_ticket PROCESSING None)))) 1) = Some COMPLETED
   \<and> map action (audit_logs (snd (process_ticket_async example_job 1
        (example_system (query_ticket PROCESSING None)))))
       = [''ai_processing_started'', ''ai_processing_completed'']"
proof -
  have t: "tickets (example_system (query_ticket PROCESSING None)) 1
       = Some (query_ticket PROCESSING None)"
    by (simp add: example_system_def)
  show ?thesis
    by (simp add: process_ticket_async_found [OF t] dispatch_status example_dispatch_query)
      (simp add: query_ticket_def example_ticket_def example_system_def)
qed

text \<open>
  C3. When the ticket exists and the handler selected for it fails with an error \<open>e\<close>
  (an unknown task type, a missing field, a failing client or anything else), the task
  ends by raising \<open>e\<close> again; the ticket's status is then FAILED and its error text is
  \<open>str(e)\<close>, and the audit log has gained the entry of the start followed by an entry with
  the action \<open>ai_processing_failed\<close> whose metadata carries the error.
\<close>

theorem handler_failure_is_recorded_and_raised:
  assumes "tickets sys ticket_id = Some ticket"
    and "dispatch env (ticket\<lparr>status := PROCESSING\<rparr>) = Inl e"
  shows "fst (process_ticket_task env ticket_id sys) = Inl e
       \<and> map_option status (tickets (snd (process_ticket_task env ticket_id sys)) ticket_id)
           = Some FAILED
       \<and> map_option error_message
           (tickets (snd (process_ticket_task env ticket_id sys)) ticket_id)
           = Some (Some (str_exn e))
       \<and> audit_logs (snd (process_ticket_task env ticket_id sys)) =
           audit_logs sys @
             [\<lparr>action = ''ai_processing_started'', entity_type = ''ticket'',
               entity_id = ticket_id, description' = ProcessingStarted (task_type ticket),
               metadata = [(''celery_task_id'', request_id env)], timestamp = utcnow env\<rparr>,
              \<lparr>action = ''ai_processing_failed'', entity_type = ''ticket'',
               entity_id = ticket_id, description' = ProcessingFailed (str_exn e),
               metadata = [(''error'', JStr (str_exn e))], timestamp = utcnow env\<rparr>]"
  using assms(2)
  by (simp add: process_ticket_task_found [OF assms(1)] process_ticket_async_found [OF assms(1)])

theorem handler_failure_is_recorded_and_raised_witness:
  "tickets (example_system (example_ticket PENDING SNOWFLAKE_QUERY None)) 1
     = Some (example_ticket PENDING SNOWFLAKE_QUERY None)
   \<and> dispatch example_job ((example_ticket PENDING SNOWFLAKE_QUERY None)\<lparr>status := PROCESSING\<rparr>)
       = Inl (ValueError ''Query request is required for Snowflake task'')
   \<and> fst (process_ticket_task example_job 1
        (example_system (example_ticket PENDING SNOWFLAKE_QUERY None)))
       = Inl (ValueError ''Query request is required for Snowflake task'')
   \<and> map_option status (tickets (snd (process_ticket_task example_job 1
        (example_system (example_ticket PENDING SNOWFLAKE_QUERY None)))) 1) = Some FAILED
   \<and> map_option error_message (tickets (snd (process_ticket_task example_job 1
        (example_system (example_ticket PENDING SNOWFLAKE_QUERY None)))) 1)
       = Some (Some ''Query request is required for Snowflake task'')
   \<and> map (\<lambda>a. (action a, metadata a)) (audit_logs (snd (process_ticket_task example_job 1
        (example_system (example_ticket PENDING SNOWFLAKE_QUERY None)))))
       = [(''ai_processing_started'', [(''celery_task_id'', JStr ''job-1'')]),
          (''ai_processing_failed'',
           [(''error'', JStr ''Query request is required for Snowflake task'')])]"
proof -
  let ?t = "example_ticket PENDING SNOWFLAKE_QUERY None"
  have t: "tickets (example_system ?t) 1 = Some ?t"
    by (simp add: example_system_def)
  have d: "dispatch example_job (?t\<lparr>status := PROCESSING\<rparr>)
       = Inl (ValueError ''Query request is required for Snowflake task'')"
    by (simp add: example_dispatch_snowflake)
  have a: "audit_logs (example_system ?t) = []" and r: "request_id example_job = JStr ''job-1''"
    by (simp_all add: example_system_def example_job_def)
  from handler_failure_is_recorded_and_raised [OF t d] t d a r
  show ?thesis by simp
qed

text \<open>
  C4 (amended). After each operation that changes a ticket, a status of COMPLETED comes
  with a completion time: a job run that succeeds and a status update to \<open>completed\<close>
  stamp it. No operation clears the completion time: a job run that fails, a reprocess
  and a status update to another status leave it exactly as it was. So a ticket that is
  FAILED, or PENDING after a reprocess, has no completion time only if it had none before.
\<close>

theorem completed_at_set_never_cleared:
  assumes "tickets sys ticket_id = Some ticket"
  shows "(\<forall>t'. tickets (snd (process_ticket_task env ticket_id sys)) ticket_id = Some t' \<longrightarrow>
            (if status t' = COMPLETED then completed_at t' = Some (utcnow env)
             else status t' = FAILED \<and> completed_at t' = completed_at ticket))
       \<and> (\<forall>r t'. fst (reprocess_ticket current_user now ticket_id sys) = Inr r
            \<and> tickets (snd (reprocess_ticket current_user now ticket_id sys)) ticket_id = Some t'
            \<longrightarrow> status t' = PENDING \<and> completed_at t' = completed_at ticket)
       \<and> (\<forall>r t'. fst (update_ticket_status_async now ticket_id status_str rd sys) = Inr r
            \<and> tickets (snd (update_ticket_status_async now ticket_id status_str rd sys)) ticket_id
                = Some t'
            \<longrightarrow> (if status t' = COMPLETED then completed_at t' = Some now
                 else completed_at t' = completed_at ticket))"
proof (intro conjI allI impI)
  fix t'
  assume "tickets (snd (process_ticket_task env ticket_id sys)) ticket_id = Some t'"
  then show "if status t' = COMPLETED then completed_at t' = Some (utcnow env)
             else status t' = FAILED \<and> completed_at t' = completed_at ticket"
    by (auto simp: process_ticket_task_found [OF assms] process_ticket_async_found [OF assms]
        split: sum.splits)
next
  fix r t'
  assume "fst (reprocess_ticket current_user now ticket_id sys) = Inr r
            \<and> tickets (snd (reprocess_ticket current_user now ticket_id sys)) ticket_id = Some t'"
  with assms show "status t' = PENDING" and "completed_at t' = completed_at ticket"
    by (auto simp: reprocess_ticket_def split: if_splits)
next
  fix r t'
  assume "fst (update_ticket_status_async now ticket_id status_str rd sys) = Inr r
            \<and> tickets (snd (update_ticket_status_async now ticket_id status_str rd sys)) ticket_id
                = Some t'"
  with assms show "if status t' = COMPLETED then completed_at t' = Some now
                 else completed_at t' = completed_at ticket"
    by (auto simp: update_ticket_status_async_def TicketStatus_of_def Let_def
        split: sum.splits if_splits option.splits)
qed

theorem completed_at_set_never_cleared_witness:
  "tickets (example_system (query_ticket COMPLETED (Some 3))) 1
     = Some (query_ticket COMPLETED (Some 3))
   \<and> map_option (\<lambda>t. (status t, completed_at t))
       (tickets (snd (process_ticket_task example_job 1
          (example_system (query_ticket COMPLETED (Some 3))))) 1)
       = Some (COMPLETED, Some 5)
   \<and> map_option (\<lambda>t. (status t, completed_at t))
       (tickets (snd (reprocess_ticket admin_user 9 1
          (example_system (query_ticket COMPLETED (Some 3))))) 1)
       = Some (PENDING, Some 3)
   \<and> map_option (\<lambda>t. (status t, completed_at t))
       (tickets (snd (update_ticket_status_async 9 1 ''failed'' None
          (example_system (query_ticket COMPLETED (Some 3))))) 1)
       = Some (FAILED, Some 3)"
proof -
  let ?t = "query_ticket COMPLETED (Some 3)"
  have t: "tickets (example_system ?t) 1 = Some ?t"
    by (simp add: example_system_def)
  note h = completed_at_set_never_cleared [OF t, of example_job admin_user 9 "''failed''" None]
  have "map_option (\<lambda>t. (status t, completed_at t))
       (tickets (snd (process_ticket_task example_job 1 (example_system ?t))) 1)
       = Some (COMPLETED, Some 5)"
    by (simp add: process_ticket_task_found [OF t] process_ticket_async_found [OF t]
        dispatch_status example_dispatch_query) (simp add: example_job_def)
  moreover have "map_option (\<lambda>t. (status t, completed_at t))
       (tickets (snd (reprocess_ticket admin_user 9 1 (example_system ?t))) 1)
       = Some (PENDING, Some 3)"
    using h by (simp add: reprocess_ticket_def example_system_def admin_user_def
        query_ticket_def example_ticket_def)
  moreover have "map_option (\<lambda>t. (status t, completed_at t))
       (tickets (snd (update_ticket_status_async 9 1 ''failed'' None (example_system ?t))) 1)
       = Some (FAILED, Some 3)"
    by (simp add: update_ticket_status_async_def TicketStatus_of_def example_system_def
        query_ticket_def example_ticket_def)
  ultimately show ?thesis using t by simp
qed

text \<open>
  C4 as stated fails: ticket 1 is COMPLETED with completion time 3; after a reprocess it
  is PENDING and still has completion time 3, and after a job run that fails it is FAILED
  and still has completion time 3.
\<close>

theorem completion_time_survives_counterexample:
  "map_option (\<lambda>t. (status t, completed_at t))
       (tickets (snd (reprocess_ticket admin_user 9 1
          (example_system (example_ticket COMPLETED CUSTOM (Some 3))))) 1)
     = Some (PENDING, Some 3)
   \<and> map_option (\<lambda>t. (status t, completed_at t))
       (tickets (snd (process_ticket_task example_job 1
          (example_system (example_ticket COMPLETED SNOWFLAKE_QUERY (Some 3))))) 1)
     = Some (FAILED, Some 3)"
proof -
  let ?t = "example_ticket COMPLETED SNOWFLAKE_QUERY (Some 3)"
  have t: "tickets (example_system ?t) 1 = Some ?t"
    by (simp add: example_system_def)
  have "map_option (\<lambda>t. (status t, completed_at t))
       (tickets (snd (process_ticket_task example_job 1 (example_system ?t))) 1)
     = Some (FAILED, Some 3)"
    by (simp add: process_ticket_task_found [OF t] process_ticket_async_found [OF t]
        example_dispatch_snowflake) (simp add: example_ticket_def)
  then show ?thesis
    by (simp add: reprocess_ticket_def example_system_def admin_user_def example_ticket_def)
qed

text \<open>
  C5 (amended). A job run sends no notification: the executor never calls the connection
  manager, so after a run, whether it ended COMPLETED or FAILED, the manager and the
  trace of sent messages are what they were. Notifying is a separate operation:
  \<open>send_ticket_update\<close> called with a non-zero identity delivers a message with the type
  \<open>ticket_update\<close> and the ticket id to every channel of that identity whose send
  succeeds.
\<close>

theorem job_run_sends_no_ticket_update:
  "manager (snd (process_ticket_task env ticket_id sys)) = manager sys
   \<and> (owner \<noteq> 0 \<longrightarrow>
        (\<forall>ws \<in> set (channels_of self owner). send_text tr ws = None \<longrightarrow>
           (ws, ticket_update_message ticket_id update_data)
             \<in> set (sent (send_ticket_update tr ticket_id update_data (Some owner) self))))
   \<and> dict_get (ticket_update_message ticket_id update_data) ''type'' = JStr ''ticket_update''
   \<and> dict_get (ticket_update_message ticket_id update_data) ''ticket_id'' = JInt ticket_id"
proof (intro conjI impI ballI)
  show "manager (snd (process_ticket_task env ticket_id sys)) = manager sys"
    using manager_process_ticket_async [of env ticket_id sys]
    by (auto simp: process_ticket_task_def manager_mark_ticket_failed
        split: prod.splits sum.splits)
next
  fix ws
  assume o: "owner \<noteq> 0" and ws: "ws \<in> set (channels_of self owner)"
    and ok: "send_text tr ws = None"
  from ws obtain conns where c: "map_of (active_connections self) owner = Some conns"
    and m: "ws \<in> set conns"
    by (cases "map_of (active_connections self) owner") (auto simp: channels_of_def)
  show "(ws, ticket_update_message ticket_id update_data)
          \<in> set (sent (send_ticket_update tr ticket_id update_data (Some owner) self))"
    using o m ok
    by (simp add: send_ticket_update_def send_message_to_user_eq [OF c] send_each_sent)
qed (simp_all add: ticket_update_message_def dict_get_def)

theorem job_run_sends_no_ticket_update_witness:
  "manager (snd (process_ticket_task example_job 1
      (example_system (example_ticket PENDING CUSTOM None)))) = example_manager
   \<and> channels_of example_manager 7 = [10]
   \<and> send_text good_transport 10 = None
   \<and> (10, ticket_update_message 1 []) \<in> set (sent (send_ticket_update good_transport 1 []
        (Some 7) example_manager))"
  using job_run_sends_no_ticket_update [of example_job 1
          "example_system (example_ticket PENDING CUSTOM None)" 7 example_manager
          good_transport "[]"]
  by (simp add: example_system_def)
    (simp add: channels_of_def example_manager_def good_transport_def)

text \<open>
  C5 as stated fails: ticket 1 belongs to identity 7, which has the live channel 10. A
  job run that ends COMPLETED and a job run that ends FAILED both leave the trace of sent
  messages empty.
\<close>

theorem job_run_without_notification_counterexample:
  "created_by (query_ticket PENDING None) = 7
   \<and> channels_of (manager (example_system (query_ticket PENDING None))) 7 = [10]
   \<and> map_option status (tickets (snd (process_ticket_task example_job 1
        (example_system (query_ticket PENDING None)))) 1) = Some COMPLETED
   \<and> sent (manager (snd (process_ticket_task example_job 1
        (example_system (query_ticket PENDING None))))) = []
   \<and> created_by (example_ticket PENDING CUSTOM None) = 7
   \<and> map_option status (tickets (snd (process_ticket_task example_job 1
        (example_system (example_ticket PENDING CUSTOM None)))) 1) = Some FAILED
   \<and> sent (manager (snd (process_ticket_task example_job 1
        (example_system (example_ticket PENDING CUSTOM None))))) = []"
proof -
  let ?t = "query_ticket PENDING None"
  let ?c = "example_ticket PENDING CUSTOM None"
  have t: "tickets (example_system ?t) 1 = Some ?t"
    and c: "tickets (example_system ?c) 1 = Some ?c"
    by (simp_all add: example_system_def)
  have 1: "map_option status (tickets (snd (process_ticket_task example_job 1
        (example_system ?t))) 1) = Some COMPLETED
      \<and> sent (manager (snd (process_ticket_task example_job 1 (example_system ?t)))) = []"
    by (simp add: process_ticket_task_found [OF t] process_ticket_async_found [OF t]
        dispatch_status example_dispatch_query)
      (simp add: example_system_def example_manager_def)
  have 2: "map_option status (tickets (snd (process_ticket_task example_job 1
        (example_system ?c))) 1) = Some FAILED
      \<and> sent (manager (snd (process_ticket_task example_job 1 (example_system ?c)))) = []"
    by (simp add: process_ticket_task_found [OF c] process_ticket_async_found [OF c]
        dispatch_status example_dispatch_custom)
      (simp add: example_system_def example_manager_def)
  from 1 2 show ?thesis
    by (simp add: query_ticket_def example_ticket_def example_system_def example_manager_def
        channels_of_def)
qed

end
